theory Spec2Isabelle
  imports Main "HOL-Library.AList" "HOL-Library.Sublist"
begin

section \<open>Python strings\<close>

text \<open>
  A Python \<open>str\<close> is modelled as a \<open>string\<close>; a character stands for a code point
  below 256. The functions below are the \<open>str\<close> methods that \<open>agents.py\<close> uses, with
  the separator or pattern always a non-empty literal in the source.
\<close>

definition nl :: string where
  "nl = [CHR 0x0A]"

definition sq :: string where
  "sq = [CHR 0x27]"

definition backslash :: string where
  "backslash = [CHR 0x5C]"

text \<open>\<open>s.startswith(p)\<close>\<close>

fun starts_with :: "string \<Rightarrow> string \<Rightarrow> bool" where
  "starts_with [] s = True"
| "starts_with (p # ps) [] = False"
| "starts_with (p # ps) (c # cs) = (p = c \<and> starts_with ps cs)"

text \<open>\<open>p in s\<close>\<close>

fun contains :: "string \<Rightarrow> string \<Rightarrow> bool" where
  "contains p [] = (p = [])"
| "contains p (c # cs) = (starts_with p (c # cs) \<or> contains p cs)"

text \<open>The index of the first occurrence of \<open>p\<close> in \<open>s\<close>, if there is one.\<close>

fun find_sub :: "string \<Rightarrow> string \<Rightarrow> nat option" where
  "find_sub p [] = (if p = [] then Some 0 else None)"
| "find_sub p (c # cs) =
     (if starts_with p (c # cs) then Some 0 else map_option Suc (find_sub p cs))"

text \<open>\<open>s.find(p)\<close>: \<open>-1\<close> when \<open>p\<close> does not occur.\<close>

definition py_find :: "string \<Rightarrow> string \<Rightarrow> int" where
  "py_find p s = (case find_sub p s of None \<Rightarrow> - 1 | Some i \<Rightarrow> int i)"

text \<open>
  The start of the last occurrence of the one-character pattern \<open>c\<close>:
  \<open>[a.start() for a in list(re.finditer(c, s))][-1]\<close>, which raises IndexError (here
  \<open>None\<close>) when there is no occurrence.
\<close>

fun last_index :: "char \<Rightarrow> string \<Rightarrow> nat option" where
  "last_index c [] = None"
| "last_index c (x # xs) =
     (case last_index c xs of
        Some i \<Rightarrow> Some (Suc i)
      | None \<Rightarrow> if x = c then Some 0 else None)"

text \<open>\<open>s[a:b]\<close>: a negative bound counts from the end, and both bounds are clamped.\<close>

definition slice_bound :: "nat \<Rightarrow> int \<Rightarrow> nat" where
  "slice_bound n i = (if i < 0 then nat (int n + i) else min n (nat i))"

definition py_slice :: "string \<Rightarrow> int \<Rightarrow> int \<Rightarrow> string" where
  "py_slice s a b =
     (let lo = slice_bound (length s) a; hi = slice_bound (length s) b
      in take (hi - lo) (drop lo s))"

text \<open>
  \<open>s.replace(old, new)\<close> for a non-empty \<open>old\<close>: occurrences are replaced from the
  left and do not overlap. The counter is the number of characters of a matched
  occurrence that are still to be skipped.
\<close>

fun replace_from :: "string \<Rightarrow> string \<Rightarrow> nat \<Rightarrow> string \<Rightarrow> string" where
  "replace_from old new k [] = []"
| "replace_from old new (Suc k) (c # cs) = replace_from old new k cs"
| "replace_from old new 0 (c # cs) =
     (if starts_with old (c # cs) then new @ replace_from old new (length old - 1) cs
      else c # replace_from old new 0 cs)"

definition py_replace :: "string \<Rightarrow> string \<Rightarrow> string \<Rightarrow> string" where
  "py_replace old new s = replace_from old new 0 s"

text \<open>
  \<open>s.split(sep)\<close> for a non-empty \<open>sep\<close>: the pieces between the occurrences of
  \<open>sep\<close>, found from the left without overlap. \<open>cur\<close> is the piece being read,
  reversed.
\<close>

fun split_from :: "string \<Rightarrow> nat \<Rightarrow> string \<Rightarrow> string \<Rightarrow> string list" where
  "split_from sep k cur [] = [rev cur]"
| "split_from sep (Suc k) cur (c # cs) = split_from sep k cur cs"
| "split_from sep 0 cur (c # cs) =
     (if starts_with sep (c # cs) then rev cur # split_from sep (length sep - 1) [] cs
      else split_from sep 0 (c # cur) cs)"

definition py_split :: "string \<Rightarrow> string \<Rightarrow> string list" where
  "py_split sep s = split_from sep 0 [] s"

text \<open>\<open>s.strip()\<close>: the white space of \<open>str.isspace\<close> below code point 256.\<close>

definition is_space :: "char \<Rightarrow> bool" where
  "is_space c \<longleftrightarrow>
     c \<in> set [CHR 0x09, CHR 0x0A, CHR 0x0B, CHR 0x0C, CHR 0x0D, CHR 0x1C, CHR 0x1D,
                CHR 0x1E, CHR 0x1F, CHR 0x20, CHR 0x85, CHR 0xA0]"

definition py_strip :: "string \<Rightarrow> string" where
  "py_strip s = rev (dropWhile is_space (rev (dropWhile is_space s)))"

text \<open>\<open>sep.join(xs)\<close>\<close>

fun py_join :: "string \<Rightarrow> string list \<Rightarrow> string" where
  "py_join sep [] = []"
| "py_join sep [x] = x"
| "py_join sep (x # y # ys) = x @ sep @ py_join sep (y # ys)"


section \<open>The fenced-block parser\<close>










section \<open>Python values and the runtime\<close>

text \<open>
  The values that pass through the agent: what \<open>json.loads\<close> builds (a \<open>dict\<close> keeps
  the order of its keys, so it is an association list, read with \<open>map_of\<close>), and the
  objects a tool may return. \<open>VFloat m e\<close> is the \<open>float\<close> of value \<open>m * 2^e\<close>;
  \<open>VAgentText\<close> is the \<open>str\<close> subclass \<open>AgentText\<close>; \<open>VAgentImage\<close>,
  \<open>VAgentAudio\<close> and \<open>VObject\<close> are objects known by identity.
\<close>

datatype pyval =
    VNone
  | VBool bool
  | VInt int
  | VFloat int int
  | VStr string
  | VList "pyval list"
  | VDict "(string \<times> pyval) list"
  | VAgentText string
  | VAgentImage nat
  | VAgentAudio nat
  | VObject nat

text \<open>
  \<open>json.loads(blob, strict=False)\<close> returns a value, raises JSONDecodeError (with the
  position \<open>e.pos\<close> and the text \<open>str(e)\<close>), or raises another exception. The texts
  that \<open>parse_json_blob\<close> decodes start at an opening brace whenever they are neither
  empty nor a lone closing brace, so what is decoded is an object.
\<close>

datatype json_result =
    Decoded "(string \<times> pyval) list"
  | JSONDecodeError int string
  | DecodeException string

text \<open>
  \<open>json.loads\<close> and \<open>repr\<close> belong to the Python runtime, not to the repository:
  they are parameters of the model.
\<close>

record pyrt =
  json_loads :: "string \<Rightarrow> json_result"
  py_repr :: "pyval \<Rightarrow> string"

text \<open>\<open>str(v)\<close>, as in an f-string: a \<open>str\<close> is itself.\<close>

definition py_str :: "pyrt \<Rightarrow> pyval \<Rightarrow> string" where
  "py_str rt v = (case v of VStr s \<Rightarrow> s | VAgentText s \<Rightarrow> s | _ \<Rightarrow> py_repr rt v)"

text \<open>\<open>isinstance(v, str)\<close>, with the text of the value.\<close>

definition as_str :: "pyval \<Rightarrow> string option" where
  "as_str v = (case v of VStr s \<Rightarrow> Some s | VAgentText s \<Rightarrow> Some s | _ \<Rightarrow> None)"

text \<open>\<open>type(v).__name__\<close>\<close>

definition type_name :: "pyval \<Rightarrow> string" where
  "type_name v =
     (case v of
        VNone \<Rightarrow> ''NoneType'' | VBool _ \<Rightarrow> ''bool'' | VInt _ \<Rightarrow> ''int''
      | VFloat _ _ \<Rightarrow> ''float'' | VStr _ \<Rightarrow> ''str''
      | VList _ \<Rightarrow> ''list'' | VDict _ \<Rightarrow> ''dict'' | VAgentText _ \<Rightarrow> ''AgentText''
      | VAgentImage _ \<Rightarrow> ''AgentImage'' | VAgentAudio _ \<Rightarrow> ''AgentAudio''
      | VObject _ \<Rightarrow> ''object'')"

text \<open>An exception that is not an \<open>AgentError\<close>: its class and its message.\<close>

datatype py_exception = PyException string string


section \<open>The structured-call and free-text parsers\<close>

text \<open>
  The parsers raise ValueError; the model returns the message of the error on the left.
  The agent's step turns such a failure into an \<open>AgentParsingError\<close>.
\<close>

definition parse_json_blob :: "pyrt \<Rightarrow> string \<Rightarrow> string + (string \<times> pyval) list" where
  "parse_json_blob rt json_blob =
     (let first_accolade_index = py_find ''{'' json_blob in
      case last_index (CHR ''}'') json_blob of
        None \<Rightarrow> Inl ''Error in parsing the JSON blob: list index out of range''
      | Some last_accolade_index \<Rightarrow>
          (let blob = py_replace (backslash @ [CHR 0x22]) sq
                        (py_slice json_blob first_accolade_index
                           (int last_accolade_index + 1))
           in case json_loads rt blob of
                Decoded json_data \<Rightarrow> Inr json_data
              | JSONDecodeError place e \<Rightarrow>
                  if py_slice blob (place - 1) (place + 2) = ''},'' @ nl
                  then Inl (''JSON is invalid: you probably tried to provide multiple tool ''
                            @ ''calls in one action. PROVIDE ONLY ONE TOOL CALL.'')
                  else Inl (''The JSON blob you used is invalid due to the following error: ''
                            @ e @ ''.'' @ nl @ ''JSON blob was: '' @ blob
                            @ '', decoding failed on that specific part of the blob:'' @ nl
                            @ sq @ py_slice blob (place - 4) (place + 5) @ sq @ ''.'')
              | DecodeException e \<Rightarrow> Inl (''Error in parsing the JSON blob: '' @ e)))"

text \<open>
  \<open>str\<close> of the list of missing keys: the keys are \<open>action\<close> and \<open>action_input\<close>,
  whose \<open>repr\<close> is the key between single quotes.
\<close>

definition missing_keys_str :: "string list \<Rightarrow> string" where
  "missing_keys_str ks = ''['' @ py_join '', '' (map (\<lambda>k. sq @ k @ sq) ks) @ '']''"

definition parse_json_tool_call :: "pyrt \<Rightarrow> string \<Rightarrow> string + (pyval \<times> pyval)" where
  "parse_json_tool_call rt json_blob =
     (let json_blob = py_replace ''```'' '''' (py_replace ''```json'' '''' json_blob) in
      case parse_json_blob rt json_blob of
        Inl e \<Rightarrow> Inl e
      | Inr tool_call \<Rightarrow>
          (case (map_of tool_call ''action'', map_of tool_call ''action_input'') of
             (Some action, Some action_input) \<Rightarrow> Inr (action, action_input)
           | (Some action, None) \<Rightarrow> Inr (action, VNone)
           | (None, _) \<Rightarrow>
               Inl (''Missing keys: ''
                    @ missing_keys_str
                        (filter (\<lambda>key. map_of tool_call key = None) [''action'', ''action_input''])
                    @ '' in blob '' @ py_repr rt (VDict tool_call))))"

text \<open>
  \<open>xs[i]\<close> and the unpacking of a list into two names, with the messages of the
  IndexError and the ValueError that the source's handler puts into its own message.
\<close>

definition item :: "string list \<Rightarrow> nat \<Rightarrow> string + string" where
  "item xs i = (if i < length xs then Inr (xs ! i) else Inl ''list index out of range'')"

definition unpack2 :: "string list \<Rightarrow> string + (string \<times> string)" where
  "unpack2 xs =
     (case xs of
        [a, b] \<Rightarrow> Inr (a, b)
      | [] \<Rightarrow> Inl ''not enough values to unpack (expected 2, got 0)''
      | [a] \<Rightarrow> Inl ''not enough values to unpack (expected 2, got 1)''
      | _ \<Rightarrow> Inl ''too many values to unpack (expected 2)'')"

definition text_tool_call_error :: "string \<Rightarrow> string" where
  "text_tool_call_error e =
     ''Error in parsing the text tool call: '' @ e
     @ ''. Be sure to provide the correct format. DO NOT repeat your previous incorrect tool call.''"

definition parse_text_tool_call :: "pyrt \<Rightarrow> string \<Rightarrow> string + (string \<times> pyval)" where
  "parse_text_tool_call rt text =
     (case (if contains ''Observation:'' text then item (py_split ''Observation:'' text) 0
            else Inr text) of
        Inl e \<Rightarrow> Inl (text_tool_call_error e)
      | Inr text1 \<Rightarrow>
     (case (if contains ''Action:'' text1 then item (py_split ''Action:'' text1) 1
            else Inr text1) of
        Inl e \<Rightarrow> Inl (text_tool_call_error e)
      | Inr text2 \<Rightarrow>
     (case unpack2 (py_split ''Action input:'' text2) of
        Inl e \<Rightarrow> Inl (text_tool_call_error e)
      | Inr (tool_name, tool_input) \<Rightarrow>
          (let name = py_replace backslash '''' (py_replace [CHR 0x22] '''' (py_strip tool_name))
           in if contains ''{'' tool_input
              then (case parse_json_blob rt tool_input of
                      Inl e \<Rightarrow> Inl (text_tool_call_error e)
                    | Inr d \<Rightarrow> Inr (name, VDict d))
              else Inr (name, VStr (py_replace [CHR 0x22] '''' (py_strip tool_input)))))))"


text \<open>
  A runtime for the examples: \<open>json.loads\<close> and \<open>repr\<close> tabulated on the texts and
  values that the examples give them. The examples reach no other entry.
\<close>

definition example_json_loads :: "string \<Rightarrow> json_result" where
  \<open>example_json_loads s =
     (if s = ''{"query": "x"}'' then Decoded [(''query'', VStr ''x'')]
      else if s = ''{"action": "search", "action_input": {"query": "x"}}''
        then Decoded [(''action'', VStr ''search''),
                      (''action_input'', VDict [(''query'', VStr ''x'')])]
      else if s = ''{"action": "search"}'' then Decoded [(''action'', VStr ''search'')]
      else if s = ''{"action": "final_answer", "action_input": {"answer": "image.png"}}''
        then Decoded [(''action'', VStr ''final_answer''),
                      (''action_input'', VDict [(''answer'', VStr ''image.png'')])]
      else if s = ''{"action": "echo", "action_input": {"x": "hi"}}''
        then Decoded [(''action'', VStr ''echo''),
                      (''action_input'', VDict [(''x'', VStr ''hi'')])]
      else DecodeException ''not tabulated'')\<close>

definition example_repr :: "pyval \<Rightarrow> string" where
  "example_repr v =
     (if v = VDict [(''query'', VStr ''x'')] then ''{'' @ sq @ ''query'' @ sq @ '': '' @ sq @ ''x'' @ sq @ ''}''
      else if v = VList [VStr ''echo'', VStr ''final_answer'']
        then ''['' @ sq @ ''echo'' @ sq @ '', '' @ sq @ ''final_answer'' @ sq @ '']''
      else ''<not tabulated>'')"

definition example_rt :: pyrt where
  "example_rt = \<lparr>json_loads = example_json_loads, py_repr = example_repr\<rparr>"


text \<open>The two example texts of a call of the tool \<open>search\<close>.\<close>

definition structured_example :: string where
  \<open>structured_example = ''{"action": "search", "action_input": {"query": "x"}}''\<close>

definition labelled_example :: string where
  \<open>labelled_example = ''Action: search'' @ nl @ ''Action input: {"query": "x"}''\<close>


section \<open>Errors, messages and the log\<close>

text \<open>The classes of \<open>AgentError\<close>, each with its message; \<open>str(e)\<close> is the message.\<close>

datatype agent_error =
    AgentError string
  | AgentParsingError string
  | AgentExecutionError string
  | AgentMaxIterationsError string
  | AgentGenerationError string

fun error_message :: "agent_error \<Rightarrow> string" where
  "error_message (AgentError m) = m"
| "error_message (AgentParsingError m) = m"
| "error_message (AgentExecutionError m) = m"
| "error_message (AgentMaxIterationsError m) = m"
| "error_message (AgentGenerationError m) = m"

text \<open>
  What a call may do: return a value, raise an \<open>AgentError\<close>, or raise another
  exception, which no handler of the run loop catches.
\<close>

datatype 'a outcome = Returns 'a | RaisesAgent agent_error | Raises py_exception

datatype message_role = SYSTEM | USER | ASSISTANT | TOOL_RESPONSE

record message =
  role :: message_role
  content :: string

text \<open>
  A log entry is a \<open>dict\<close> whose keys are among the fields below; a field is \<open>None\<close>
  when the key is absent. The value of \<open>tool_call\<close> is the pair of \<open>tool_name\<close> and
  \<open>tool_arguments\<close>. \<open>Some VNone\<close> in \<open>final_answer\<close> is the key present with the
  value \<open>None\<close>.
\<close>

record log_entry =
  system_prompt :: "string option"
  task :: "string option"
  agent_memory :: "message list option"
  llm_output :: "string option"
  rationale :: "string option"
  tool_call :: "(pyval \<times> pyval) option"
  observation :: "pyval option"
  error :: "agent_error option"
  final_answer :: "pyval option"
  plan :: "string option"
  facts :: "string option"

definition empty_entry :: log_entry where
  "empty_entry =
     \<lparr>system_prompt = None, task = None, agent_memory = None, llm_output = None,
      rationale = None, tool_call = None, observation = None, error = None,
      final_answer = None, plan = None, facts = None\<rparr>"

text \<open>The keys of an entry, in the order in which the agent sets them.\<close>

definition entry_keys :: "log_entry \<Rightarrow> string list" where
  "entry_keys e =
     (if system_prompt e = None then [] else [''system_prompt''])
     @ (if task e = None then [] else [''task''])
     @ (if agent_memory e = None then [] else [''agent_memory''])
     @ (if llm_output e = None then [] else [''llm_output''])
     @ (if rationale e = None then [] else [''rationale''])
     @ (if tool_call e = None then [] else [''tool_call''])
     @ (if observation e = None then [] else [''observation''])
     @ (if error e = None then [] else [''error''])
     @ (if final_answer e = None then [] else [''final_answer''])
     @ (if plan e = None then [] else [''plan''])
     @ (if facts e = None then [] else [''facts''])"


section \<open>Tools, the agent and its state\<close>

text \<open>
  Tools and the LLM engine are outside the repository. A call of either takes the state
  of the outside world and returns the new one, with a result or the message of the
  exception it raised. A tool is called with one positional value or with keywords.
  \<open>describe\<close> is \<open>get_tool_description_with_args\<close> of the tool: \<open>None\<close> stands for
  the default template of that function.
\<close>

datatype tool_args = Positional pyval | Keywords "(string \<times> pyval) list"

record 'w tool =
  describe :: "string option \<Rightarrow> string"
  forward :: "tool_args \<Rightarrow> 'w \<Rightarrow> (string + pyval) \<times> 'w"

text \<open>
  The attributes of an agent that a run reads: they do not change during a run.
  \<open>toolbox\<close> is the \<open>dict\<close> of \<open>Toolbox._tools\<close>. \<open>authorized_imports\<close> is \<open>None\<close>
  for an agent without that attribute, else the text of the merged list of imports.
\<close>

record 'w agent =
  llm_engine :: "message list \<Rightarrow> string list \<Rightarrow> 'w \<Rightarrow> (string + string) \<times> 'w"
  toolbox :: "(string \<times> 'w tool) list"
  system_prompt_template :: string
  tool_description_template :: string
  max_iterations :: int
  tool_parser :: "string \<Rightarrow> string + (pyval \<times> pyval)"
  planning_interval :: "int option"
  authorized_imports :: "string option"

text \<open>
  What a run changes: the log, the State of named values, and the outside world.
  \<open>self.prompt\<close> is only written, and is the argument of the next engine call.
\<close>

record 'w agent_state =
  logs :: "log_entry list"
  state :: "(string \<times> pyval) list"
  world :: 'w


section \<open>The memory builder\<close>

text \<open>\<open>str(n)\<close> for a natural number.\<close>

fun str_of_nat :: "nat \<Rightarrow> string" where
  "str_of_nat n =
     (if n < 10 then [''0123456789'' ! n]
      else str_of_nat (n div 10) @ [''0123456789'' ! (n mod 10)])"

declare str_of_nat.simps [simp del]

definition retry_guidance :: string where
  "retry_guidance =
     nl @ ''Now let'' @ sq @ ''s retry: take care not to repeat previous errors! ''
     @ ''If you have retried several times, try a completely different approach.'' @ nl"

text \<open>The messages of one entry after entry 0: the body of the loop over \<open>logs[1:]\<close>.\<close>

definition step_messages :: "pyrt \<Rightarrow> bool \<Rightarrow> nat \<Rightarrow> log_entry \<Rightarrow> message list" where
  "step_messages rt summary_mode i step_log =
     (case llm_output step_log of
        Some out \<Rightarrow>
          if \<not> summary_mode then [\<lparr>role = ASSISTANT, content = py_strip out\<rparr>] else []
      | None \<Rightarrow> [])
     @ (case facts step_log of
          Some f \<Rightarrow> [\<lparr>role = ASSISTANT, content = ''[FACTS LIST]:'' @ nl @ py_strip f\<rparr>]
        | None \<Rightarrow> [])
     @ (case plan step_log of
          Some p \<Rightarrow>
            if \<not> summary_mode
            then [\<lparr>role = ASSISTANT, content = ''[PLAN]:'' @ nl @ py_strip p\<rparr>] else []
        | None \<Rightarrow> [])
     @ (case tool_call step_log of
          Some (n, a) \<Rightarrow>
            if summary_mode
            then [\<lparr>role = ASSISTANT,
                   content = ''[STEP '' @ str_of_nat i @ '' TOOL CALL]: ''
                     @ py_strip (py_str rt (VDict [(''tool_name'', n), (''tool_arguments'', a)]))\<rparr>]
            else []
        | None \<Rightarrow> [])
     @ (case task step_log of
          Some t \<Rightarrow> [\<lparr>role = USER, content = ''New task:'' @ nl @ t\<rparr>]
        | None \<Rightarrow> [])
     @ (case error step_log of
          Some e \<Rightarrow>
            [\<lparr>role = TOOL_RESPONSE,
              content = ''[OUTPUT OF STEP '' @ str_of_nat i @ ''] Error: '' @ error_message e
                @ retry_guidance\<rparr>]
        | None \<Rightarrow>
            (case observation step_log of
               Some ob \<Rightarrow>
                 [\<lparr>role = TOOL_RESPONSE,
                   content = ''[OUTPUT OF STEP '' @ str_of_nat i @ ''] Observation:'' @ nl
                     @ py_str rt ob\<rparr>]
             | None \<Rightarrow> []))"

fun memory_steps :: "pyrt \<Rightarrow> bool \<Rightarrow> nat \<Rightarrow> log_entry list \<Rightarrow> message list" where
  "memory_steps rt summary_mode i [] = []"
| "memory_steps rt summary_mode i (step_log # rest) =
     step_messages rt summary_mode i step_log @ memory_steps rt summary_mode (Suc i) rest"

definition key_error :: "string \<Rightarrow> py_exception" where
  "key_error k = PyException ''KeyError'' (sq @ k @ sq)"

definition write_inner_memory_from_logs ::
    "pyrt \<Rightarrow> bool \<Rightarrow> bool \<Rightarrow> log_entry list \<Rightarrow> py_exception + message list" where
  "write_inner_memory_from_logs rt summary_mode is_mistral lgs =
     (case lgs of
        [] \<Rightarrow> Inl (PyException ''IndexError'' ''list index out of range'')
      | entry0 # rest \<Rightarrow>
          (case system_prompt entry0 of
             None \<Rightarrow> Inl (key_error ''system_prompt'')
           | Some sp \<Rightarrow>
               (case task entry0 of
                  None \<Rightarrow> Inl (key_error ''task'')
                | Some t \<Rightarrow>
                    (let prompt_message =
                           (if \<not> is_mistral then \<lparr>role = SYSTEM, content = sp\<rparr>
                            else \<lparr>role = USER,
                                  content = py_replace ''<<tool_descriptions>>'' '''' sp\<rparr>);
                         task_message = \<lparr>role = USER, content = ''Task: '' @ t\<rparr>;
                         memory = (if summary_mode then [task_message]
                                   else [prompt_message, task_message])
                     in Inr (memory @ memory_steps rt summary_mode 0 rest)))))"


text \<open>
  The tool-response message of an entry as the specification words it: one message from
  \<open>error\<close>, with the retry guidance, or else one from \<open>observation\<close>, or none.
\<close>

definition tool_response_of :: "pyrt \<Rightarrow> nat \<Rightarrow> log_entry \<Rightarrow> message list" where
  "tool_response_of rt i step_log =
     (case error step_log of
        Some e \<Rightarrow>
          [\<lparr>role = TOOL_RESPONSE,
            content = ''[OUTPUT OF STEP '' @ str_of_nat i @ ''] Error: '' @ error_message e
              @ retry_guidance\<rparr>]
      | None \<Rightarrow>
          (case observation step_log of
             Some ob \<Rightarrow>
               [\<lparr>role = TOOL_RESPONSE,
                 content = ''[OUTPUT OF STEP '' @ str_of_nat i @ ''] Observation:'' @ nl
                   @ py_str rt ob\<rparr>]
           | None \<Rightarrow> []))"


text \<open>Entries for the examples.\<close>

definition entry0_example :: log_entry where
  "entry0_example =
     empty_entry\<lparr>system_prompt := Some ''You are an agent.'', task := Some ''What is 2+2?''\<rparr>"

definition failed_entry_example :: log_entry where
  "failed_entry_example =
     empty_entry\<lparr>observation := Some (VStr ''4''),
                 error := Some (AgentExecutionError ''boom'')\<rparr>"


section \<open>The tool executor\<close>

text \<open>
  \<open>tool_name in self.toolbox.tools\<close>: a \<open>str\<close> is looked up by its text, a
  \<open>list\<close> or a \<open>dict\<close> cannot be hashed (TypeError), and any other value equals no
  key.
\<close>

definition toolbox_lookup ::
    "(string \<times> 'w tool) list \<Rightarrow> pyval \<Rightarrow> py_exception + 'w tool option" where
  "toolbox_lookup tools tool_name =
     (case tool_name of
        VStr n \<Rightarrow> Inr (map_of tools n)
      | VAgentText n \<Rightarrow> Inr (map_of tools n)
      | VList _ \<Rightarrow> Inl (PyException ''TypeError'' (''unhashable type: '' @ sq @ ''list'' @ sq))
      | VDict _ \<Rightarrow> Inl (PyException ''TypeError'' (''unhashable type: '' @ sq @ ''dict'' @ sq))
      | _ \<Rightarrow> Inr None)"

text \<open>
  The loop over \<open>arguments.items()\<close>: a value that is a \<open>str\<close> and a key of the State
  is replaced by the value that the State holds under it.
\<close>

definition substitute_state ::
    "(string \<times> pyval) list \<Rightarrow> (string \<times> pyval) list \<Rightarrow> (string \<times> pyval) list" where
  "substitute_state st arguments =
     map (\<lambda>(key, value).
            (key, case as_str value of
                    Some v \<Rightarrow> (case map_of st v of Some stored \<Rightarrow> stored | None \<Rightarrow> value)
                  | None \<Rightarrow> value))
         arguments"

definition unknown_tool_error :: "pyrt \<Rightarrow> (string \<times> 'w tool) list \<Rightarrow> pyval \<Rightarrow> agent_error" where
  "unknown_tool_error rt tools tool_name =
     AgentExecutionError
       (''Error: unknown tool '' @ py_str rt tool_name @ '', should be instead one of ''
        @ py_repr rt (VList (map VStr (map fst tools))) @ ''.'')"

definition tool_execution_error :: "'w tool \<Rightarrow> string \<Rightarrow> agent_error" where
  "tool_execution_error tool e =
     AgentExecutionError
       (''Error in tool call execution: '' @ e @ nl
        @ ''You should only use this tool with a correct input.'' @ nl
        @ ''As a reminder, this tool'' @ sq @ ''s description is the following:'' @ nl
        @ describe tool None)"

text \<open>
  \<open>execute_tool_call\<close> returns the observation or raises. It changes the \<open>dict\<close> of
  the arguments in place, so the model also returns the arguments as the call leaves them,
  with the outside world after the call of the tool.
\<close>

definition execute_tool_call ::
    "'w agent \<Rightarrow> pyrt \<Rightarrow> (string \<times> pyval) list \<Rightarrow> pyval \<Rightarrow> pyval \<Rightarrow> 'w
       \<Rightarrow> pyval outcome \<times> pyval \<times> 'w" where
  "execute_tool_call ag rt st tool_name arguments w =
     (case toolbox_lookup (toolbox ag) tool_name of
        Inl exn \<Rightarrow> (Raises exn, arguments, w)
      | Inr None \<Rightarrow> (RaisesAgent (unknown_tool_error rt (toolbox ag) tool_name), arguments, w)
      | Inr (Some tool) \<Rightarrow>
          (case as_str arguments of
             Some _ \<Rightarrow>
               (case forward tool (Positional arguments) w of
                  (Inr obs, w') \<Rightarrow> (Returns obs, arguments, w')
                | (Inl e, w') \<Rightarrow> (RaisesAgent (tool_execution_error tool e), arguments, w'))
           | None \<Rightarrow>
               (case arguments of
                  VDict items \<Rightarrow>
                    (let substituted = substitute_state st items in
                     case forward tool (Keywords substituted) w of
                       (Inr obs, w') \<Rightarrow> (Returns obs, VDict substituted, w')
                     | (Inl e, w') \<Rightarrow>
                         (RaisesAgent (tool_execution_error tool e), VDict substituted, w'))
                | _ \<Rightarrow>
                    (RaisesAgent
                       (tool_execution_error tool
                          (sq @ type_name arguments @ sq @ '' object has no attribute ''
                           @ sq @ ''items'' @ sq)),
                     arguments, w))))"


section \<open>One step of the structured-call agent\<close>

definition extract_action :: "string \<Rightarrow> string \<Rightarrow> agent_error + (string \<times> string)" where
  "extract_action output split_token =
     (let split = py_split split_token output in
      if 2 \<le> length split
      then Inr (split ! (length split - 2), split ! (length split - 1))
      else Inl (AgentParsingError
                  (''Error: No '' @ sq @ split_token @ sq @ '' token provided in your output.''
                   @ nl @ ''Your output:'' @ nl @ output @ nl
                   @ ''. Be sure to include an action, prefaced with '' @ sq @ split_token
                   @ sq @ ''!'')))"

text \<open>
  The answer that the pseudo-tool \<open>final_answer\<close> records: the branch of the step for
  \<open>tool_name == "final_answer"\<close>.
\<close>

definition final_answer_value :: "(string \<times> pyval) list \<Rightarrow> pyval \<Rightarrow> pyval" where
  "final_answer_value st arguments =
     (case arguments of
        VDict items \<Rightarrow>
          (case map_of items ''answer'' of
             Some answer \<Rightarrow>
               (case as_str answer of
                  Some a \<Rightarrow> (case map_of st a of Some stored \<Rightarrow> stored | None \<Rightarrow> answer)
                | None \<Rightarrow> answer)
           | None \<Rightarrow> arguments)
      | _ \<Rightarrow> arguments)"

text \<open>
  What a step returns: \<open>ReactJsonAgent.step\<close> returns its entry, \<open>ReactCodeAgent.step\<close>
  the entry and the observation, \<open>ReactCodeSearchAgent.step\<close> the entry, the observation
  and the summarization.
\<close>

datatype step_value =
    RetEntry log_entry
  | RetPair log_entry pyval
  | RetTriple log_entry pyval pyval

text \<open>
  The step after the entry \<open>current_step_logs\<close> has been appended and the memory built:
  the outcome, the entry as the step leaves it, the State and the outside world.
\<close>

definition json_step_body ::
    "'w agent \<Rightarrow> pyrt \<Rightarrow> message list \<Rightarrow> (string \<times> pyval) list \<Rightarrow> 'w
       \<Rightarrow> step_value outcome \<times> log_entry \<times> (string \<times> pyval) list \<times> 'w" where
  "json_step_body ag rt memory st w =
     (let logs0 = empty_entry\<lparr>agent_memory := Some memory\<rparr> in
      case llm_engine ag memory [''<end_action>'', ''Observation:''] w of
        (Inl e, w1) \<Rightarrow>
          (RaisesAgent (AgentGenerationError (''Error in generating llm output: '' @ e @ ''.'')),
           logs0, st, w1)
      | (Inr output, w1) \<Rightarrow>
          (let logs1 = logs0\<lparr>llm_output := Some output\<rparr> in
           case extract_action output ''Action:'' of
             Inl err \<Rightarrow> (RaisesAgent err, logs1, st, w1)
           | Inr (rationale_text, action) \<Rightarrow>
               (case tool_parser ag action of
                  Inl e \<Rightarrow>
                    (RaisesAgent
                       (AgentParsingError (''Could not parse the given action: '' @ e @ ''.'')),
                     logs1, st, w1)
                | Inr (tool_name, arguments) \<Rightarrow>
                    (let logs2 = logs1\<lparr>rationale := Some rationale_text,
                                       tool_call := Some (tool_name, arguments)\<rparr> in
                     if as_str tool_name = Some ''final_answer''
                     then (let logs3 = logs2\<lparr>final_answer :=
                                                Some (final_answer_value st arguments)\<rparr>
                           in (Returns (RetEntry logs3), logs3, st, w1))
                     else
                       (case execute_tool_call ag rt st tool_name arguments w1 of
                          (Raises exn, arguments', w2) \<Rightarrow>
                            (Raises exn, logs2\<lparr>tool_call := Some (tool_name, arguments')\<rparr>,
                             st, w2)
                        | (RaisesAgent err, arguments', w2) \<Rightarrow>
                            (RaisesAgent err,
                             logs2\<lparr>tool_call := Some (tool_name, arguments')\<rparr>, st, w2)
                        | (Returns result, arguments', w2) \<Rightarrow>
                            (let logs3 = logs2\<lparr>tool_call := Some (tool_name, arguments')\<rparr> in
                             case result of
                               VAgentText txt \<Rightarrow>
                                 (let logs4 = logs3\<lparr>observation := Some (VStr (py_strip txt))\<rparr>
                                  in (Returns (RetEntry logs4), logs4, st, w2))
                             | _ \<Rightarrow>
                                 (let observation_name =
                                        (case result of
                                           VAgentImage _ \<Rightarrow> ''image.png''
                                         | VAgentAudio _ \<Rightarrow> ''audio.mp3''
                                         | _ \<Rightarrow> ''object.object'');
                                      logs4 = logs3\<lparr>observation :=
                                        Some (VStr (''Stored '' @ sq @ observation_name @ sq
                                                    @ '' in memory.''))\<rparr>
                                  in (Returns (RetEntry logs4), logs4,
                                      AList.update observation_name result st, w2))))))))"

text \<open>
  \<open>ReactJsonAgent.step\<close>: the memory is built from the log, then the new entry is
  appended. When the memory cannot be built the exception leaves the log as it is.
\<close>

definition json_step :: "'w agent \<Rightarrow> pyrt \<Rightarrow> 'w agent_state \<Rightarrow> step_value outcome \<times> 'w agent_state" where
  "json_step ag rt s =
     (case write_inner_memory_from_logs rt False False (logs s) of
        Inl exn \<Rightarrow> (Raises exn, s)
      | Inr memory \<Rightarrow>
          (case json_step_body ag rt memory (state s) (world s) of
             (result, current_step_logs, st, w) \<Rightarrow>
               (result, \<lparr>logs = logs s @ [current_step_logs], state = st, world = w\<rparr>)))"


section \<open>The planner and the recovery call\<close>

text \<open>
  The prompts of the planner come from the module \<open>prompts\<close>, which is outside the
  repository's sources: they are parameters. A prompt that the source fills with
  \<open>format\<close> is a function of the values it is filled with.
\<close>

record planner_prompts =
  SYSTEM_PROMPT_FACTS :: string
  SYSTEM_PROMPT_PLAN :: string
  USER_PROMPT_PLAN :: "string \<Rightarrow> string \<Rightarrow> string \<Rightarrow> string"
  SYSTEM_PROMPT_FACTS_UPDATE :: string
  USER_PROMPT_FACTS_UPDATE :: string
  SYSTEM_PROMPT_PLAN_UPDATE :: "string \<Rightarrow> string"
  USER_PROMPT_PLAN_UPDATE :: "string \<Rightarrow> string \<Rightarrow> string \<Rightarrow> int \<Rightarrow> string"
  PLAN_UPDATE_FINAL_PLAN_REDACTION :: "string \<Rightarrow> string \<Rightarrow> string"

definition show_tool_descriptions :: "'w agent \<Rightarrow> string \<Rightarrow> string" where
  "show_tool_descriptions ag template =
     py_join nl (map (\<lambda>(n, tool). describe tool (Some template)) (toolbox ag))"

text \<open>An exception of the engine that no handler wraps.\<close>

definition engine_exception :: "string \<Rightarrow> py_exception" where
  "engine_exception e = PyException ''Exception'' e"

definition system_role :: "bool \<Rightarrow> message_role" where
  "system_role is_mistral = (if \<not> is_mistral then SYSTEM else USER)"

text \<open>
  \<open>planning_step\<close> appends one entry with the plan and the facts, after two calls of
  the engine. The exception of a failed call, or of the memory builder, leaves the method.
\<close>

definition planning_step ::
    "'w agent \<Rightarrow> pyrt \<Rightarrow> planner_prompts \<Rightarrow> string \<Rightarrow> bool \<Rightarrow> int \<Rightarrow> bool \<Rightarrow> 'w agent_state
       \<Rightarrow> py_exception option \<times> 'w agent_state" where
  "planning_step ag rt pp tsk is_first_step iteration is_mistral s =
     (if is_first_step then
        (let message_prompt_facts =
               \<lparr>role = system_role is_mistral, content = SYSTEM_PROMPT_FACTS pp\<rparr>;
             message_system_prompt_plan =
               \<lparr>role = system_role is_mistral, content = SYSTEM_PROMPT_PLAN pp\<rparr>;
             message_prompt_task =
               \<lparr>role = USER,
                content = ''Here is the task:'' @ nl @ ''```'' @ nl @ tsk @ nl @ ''```'' @ nl
                  @ ''Now begin!''\<rparr>
         in case llm_engine ag [message_prompt_facts, message_prompt_task] [] (world s) of
              (Inl e, w1) \<Rightarrow> (Some (engine_exception e), s\<lparr>world := w1\<rparr>)
            | (Inr answer_facts, w1) \<Rightarrow>
                (let message_user_prompt_plan =
                       \<lparr>role = USER,
                        content = USER_PROMPT_PLAN pp tsk
                          (show_tool_descriptions ag (tool_description_template ag))
                          answer_facts\<rparr>
                 in case llm_engine ag [message_system_prompt_plan, message_user_prompt_plan]
                           [''<end_plan>''] w1 of
                      (Inl e, w2) \<Rightarrow> (Some (engine_exception e), s\<lparr>world := w2\<rparr>)
                    | (Inr answer_plan, w2) \<Rightarrow>
                        (let final_plan_redaction =
                               ''Here is the plan of action that I will follow to solve the task:''
                               @ nl @ ''```'' @ nl @ answer_plan @ nl @ ''```'';
                             final_facts_redaction =
                               py_strip (''Here are the facts that I know so far:'' @ nl
                                         @ ''```'' @ nl @ answer_facts @ nl @ ''```'')
                         in (None,
                             s\<lparr>logs := logs s @ [empty_entry\<lparr>plan := Some final_plan_redaction,
                                                 facts := Some final_facts_redaction\<rparr>],
                               world := w2\<rparr>))))
      else
        (case write_inner_memory_from_logs rt False is_mistral (logs s) of
           Inl exn \<Rightarrow> (Some exn, s)
         | Inr memory \<Rightarrow>
             (let facts_update_system_prompt =
                    \<lparr>role = system_role is_mistral, content = SYSTEM_PROMPT_FACTS_UPDATE pp\<rparr>;
                  facts_update_message =
                    \<lparr>role = USER, content = USER_PROMPT_FACTS_UPDATE pp\<rparr>
              in case llm_engine ag ([facts_update_system_prompt] @ memory @ [facts_update_message])
                        [] (world s) of
                   (Inl e, w1) \<Rightarrow> (Some (engine_exception e), s\<lparr>world := w1\<rparr>)
                 | (Inr updated_facts, w1) \<Rightarrow>
                     (let plan_update_message =
                            \<lparr>role = system_role is_mistral,
                             content = SYSTEM_PROMPT_PLAN_UPDATE pp tsk\<rparr>;
                          plan_update_message_user =
                            \<lparr>role = USER,
                             content = USER_PROMPT_PLAN_UPDATE pp tsk
                               (show_tool_descriptions ag (tool_description_template ag))
                               updated_facts (max_iterations ag - iteration)\<rparr>
                      in case llm_engine ag
                                ([plan_update_message] @ memory @ [plan_update_message_user])
                                [''<end_plan>''] w1 of
                           (Inl e, w2) \<Rightarrow> (Some (engine_exception e), s\<lparr>world := w2\<rparr>)
                         | (Inr updated_plan, w2) \<Rightarrow>
                             (let final_plan_redaction =
                                    PLAN_UPDATE_FINAL_PLAN_REDACTION pp tsk updated_plan;
                                  final_facts_redaction =
                                    ''Here is the updated list of the facts that I know:'' @ nl
                                    @ ''```'' @ nl @ updated_facts @ nl @ ''```''
                              in (None,
                                  s\<lparr>logs := logs s @
                                       [empty_entry\<lparr>plan := Some final_plan_redaction,
                                                     facts := Some final_facts_redaction\<rparr>],
                                    world := w2\<rparr>))))))"

text \<open>
  The prompt of \<open>provide_final_answer\<close>: an opening message, the memory without its
  first message, and the request for an answer to the task.
\<close>

definition final_answer_prompt :: "string \<Rightarrow> bool \<Rightarrow> message list \<Rightarrow> message list" where
  "final_answer_prompt tsk is_mistral memory =
     [\<lparr>role = system_role is_mistral,
       content = ''An agent tried to answer an user query but it got stuck and failed to do so. ''
         @ ''You are tasked with providing an answer instead. Here is the agent''
         @ sq @ ''s memory:''\<rparr>]
     @ drop 1 memory
     @ [\<lparr>role = USER,
         content = ''Based on the above, please provide an answer to the following user request:''
           @ nl @ tsk\<rparr>]"

text \<open>
  \<open>provide_final_answer\<close> calls the engine once. It returns the reply, or, when the
  call raises, a text made of the message of the exception.
\<close>

definition recovered_answer :: "string + string \<Rightarrow> string" where
  "recovered_answer r =
     (case r of
        Inr reply \<Rightarrow> reply
      | Inl e \<Rightarrow> ''Error in generating final llm output: '' @ e @ ''.'')"

definition provide_final_answer ::
    "'w agent \<Rightarrow> pyrt \<Rightarrow> string \<Rightarrow> bool \<Rightarrow> 'w agent_state
       \<Rightarrow> (py_exception + string) \<times> 'w agent_state" where
  "provide_final_answer ag rt tsk is_mistral s =
     (case write_inner_memory_from_logs rt False is_mistral (logs s) of
        Inl exn \<Rightarrow> (Inl exn, s)
      | Inr memory \<Rightarrow>
          (case llm_engine ag (final_answer_prompt tsk is_mistral memory) [] (world s) of
             (r, w) \<Rightarrow> (Inr (recovered_answer r), s\<lparr>world := w\<rparr>)))"


section \<open>The run loop\<close>

text \<open>
  \<open>step_logs, ob, sm = self.step()\<close>: the value that the step returns is unpacked into
  three names. A pair has too few values. An entry is a \<open>dict\<close>, which unpacks into its
  keys when it has exactly three: then \<open>step_logs\<close> is the first key, a string.
\<close>

datatype step_logs = StepEntry log_entry | StepKey string

definition unpack3 :: "step_value \<Rightarrow> py_exception + (step_logs \<times> pyval \<times> pyval)" where
  "unpack3 v =
     (case v of
        RetTriple e ob sm \<Rightarrow> Inr (StepEntry e, ob, sm)
      | RetPair e ob \<Rightarrow>
          Inl (PyException ''ValueError'' ''not enough values to unpack (expected 3, got 2)'')
      | RetEntry e \<Rightarrow>
          (case entry_keys e of
             [k1, k2, k3] \<Rightarrow> Inr (StepKey k1, VStr k2, VStr k3)
           | ks \<Rightarrow>
               if length ks < 3
               then Inl (PyException ''ValueError''
                           (''not enough values to unpack (expected 3, got ''
                            @ str_of_nat (length ks) @ '')''))
               else Inl (PyException ''ValueError'' ''too many values to unpack (expected 3)'')))"

text \<open>
  \<open>if "final_answer" in step_logs: final_answer = step_logs["final_answer"]\<close>, with the
  answer so far. On a string the test is a search, and the subscript raises TypeError,
  here with the message of Python 3.11 and later.
\<close>

definition read_final_answer :: "step_logs \<Rightarrow> pyval \<Rightarrow> py_exception + pyval" where
  "read_final_answer sl answer =
     (case sl of
        StepEntry e \<Rightarrow> (case final_answer e of Some a \<Rightarrow> Inr a | None \<Rightarrow> Inr answer)
      | StepKey k \<Rightarrow>
          if contains ''final_answer'' k
          then Inl (PyException ''TypeError''
                      (''string indices must be integers, not '' @ sq @ ''str'' @ sq))
          else Inr answer)"

text \<open>\<open>self.logs[-1]["error"] = e\<close>\<close>

definition set_last_error :: "agent_error \<Rightarrow> log_entry list \<Rightarrow> py_exception + log_entry list" where
  "set_last_error e lgs =
     (if lgs = [] then Inl (PyException ''IndexError'' ''list index out of range'')
      else Inr (butlast lgs @ [(last lgs)\<lparr>error := Some e\<rparr>]))"

text \<open>
  The planning of an iteration of \<open>direct_run\<close>: \<open>planning_step\<close> runs when the
  interval is set and divides the iteration; the remainder by an interval of zero raises.
\<close>

definition planning_due ::
    "'w agent \<Rightarrow> pyrt \<Rightarrow> planner_prompts \<Rightarrow> string \<Rightarrow> bool \<Rightarrow> int \<Rightarrow> 'w agent_state
       \<Rightarrow> py_exception option \<times> 'w agent_state" where
  "planning_due ag rt pp tsk is_mistral iteration s =
     (case planning_interval ag of
        None \<Rightarrow> (None, s)
      | Some interval \<Rightarrow>
          if interval = 0
          then (Some (PyException ''ZeroDivisionError'' ''integer modulo by zero''), s)
          else if iteration mod interval = 0
          then planning_step ag rt pp tsk (iteration = 0) iteration is_mistral s
          else (None, s))"

text \<open>
  The local variables of \<open>direct_run\<close>: the final answer (\<open>VNone\<close> for \<open>None\<close>), the
  count of iterations and the two lists that the run returns with the answer.
\<close>

record run_vars =
  answer :: pyval
  iteration :: int
  step_observation_logs :: "pyval list"
  sm_logs :: "pyval list"

text \<open>
  One iteration of the loop of \<open>direct_run\<close>: the \<open>try\<close> block with its handler for
  \<open>AgentError\<close> and its \<open>finally\<close>. The step is the method \<open>step\<close> of the agent's
  class. Any other exception leaves the loop and the run.
\<close>

definition direct_iteration ::
    "'w agent \<Rightarrow> pyrt \<Rightarrow> planner_prompts
       \<Rightarrow> ('w agent_state \<Rightarrow> step_value outcome \<times> 'w agent_state)
       \<Rightarrow> string \<Rightarrow> bool \<Rightarrow> run_vars \<Rightarrow> 'w agent_state
       \<Rightarrow> (py_exception + run_vars) \<times> 'w agent_state" where
  "direct_iteration ag rt pp step tsk is_mistral vars s =
     (case planning_due ag rt pp tsk is_mistral (iteration vars) s of
        (Some exn, s1) \<Rightarrow> (Inl exn, s1)
      | (None, s1) \<Rightarrow>
          (case step s1 of
             (Raises exn, s2) \<Rightarrow> (Inl exn, s2)
           | (RaisesAgent e, s2) \<Rightarrow>
               (case set_last_error e (logs s2) of
                  Inl exn \<Rightarrow> (Inl exn, s2)
                | Inr lgs \<Rightarrow> (Inr (vars\<lparr>iteration := iteration vars + 1\<rparr>), s2\<lparr>logs := lgs\<rparr>))
           | (Returns v, s2) \<Rightarrow>
               (case unpack3 v of
                  Inl exn \<Rightarrow> (Inl exn, s2)
                | Inr (sl, ob, sm) \<Rightarrow>
                    (case read_final_answer sl (answer vars) of
                       Inl exn \<Rightarrow> (Inl exn, s2)
                     | Inr a \<Rightarrow>
                         (Inr \<lparr>answer = a, iteration = iteration vars + 1,
                               step_observation_logs = step_observation_logs vars @ [ob],
                               sm_logs = sm_logs vars @ [sm]\<rparr>,
                          s2)))))"

lemma direct_iteration_counts:
  "direct_iteration ag rt pp step tsk is_mistral vars s = (Inr vars', s') \<Longrightarrow>
   iteration vars' = iteration vars + 1"
  by (auto simp: direct_iteration_def
      split: prod.splits option.splits outcome.splits sum.splits)

text \<open>\<open>while final_answer is None and iteration < self.max_iterations\<close>\<close>

function direct_loop ::
    "'w agent \<Rightarrow> pyrt \<Rightarrow> planner_prompts
       \<Rightarrow> ('w agent_state \<Rightarrow> step_value outcome \<times> 'w agent_state)
       \<Rightarrow> string \<Rightarrow> bool \<Rightarrow> run_vars \<Rightarrow> 'w agent_state
       \<Rightarrow> (py_exception + run_vars) \<times> 'w agent_state" where
  "direct_loop ag rt pp step tsk is_mistral vars s =
     (if answer vars = VNone \<and> iteration vars < max_iterations ag
      then (case direct_iteration ag rt pp step tsk is_mistral vars s of
              (Inl exn, s') \<Rightarrow> (Inl exn, s')
            | (Inr vars', s') \<Rightarrow> direct_loop ag rt pp step tsk is_mistral vars' s')
      else (Inr vars, s))"
  by pat_completeness auto
termination
  by (relation "measure (\<lambda>(ag, rt, pp, step, tsk, is_mistral, vars, s).
        nat (max_iterations ag - iteration vars))")
    (auto dest!: direct_iteration_counts[OF sym])

declare direct_loop.simps [simp del]

text \<open>
  The loop stopped after at most \<open>k\<close> iterations: the variables and the state of the run
  when \<open>k\<close> iterations are completed, or when the loop has ended before.
\<close>

primrec direct_iterations ::
    "nat \<Rightarrow> 'w agent \<Rightarrow> pyrt \<Rightarrow> planner_prompts
       \<Rightarrow> ('w agent_state \<Rightarrow> step_value outcome \<times> 'w agent_state)
       \<Rightarrow> string \<Rightarrow> bool \<Rightarrow> run_vars \<Rightarrow> 'w agent_state
       \<Rightarrow> (py_exception + run_vars) \<times> 'w agent_state" where
  "direct_iterations 0 ag rt pp step tsk is_mistral vars s = (Inr vars, s)"
| "direct_iterations (Suc k) ag rt pp step tsk is_mistral vars s =
     (if answer vars = VNone \<and> iteration vars < max_iterations ag
      then (case direct_iteration ag rt pp step tsk is_mistral vars s of
              (Inl exn, s') \<Rightarrow> (Inl exn, s')
            | (Inr vars', s') \<Rightarrow> direct_iterations k ag rt pp step tsk is_mistral vars' s')
      else (Inr vars, s))"

definition initial_vars :: run_vars where
  "initial_vars =
     \<lparr>answer = VNone, iteration = 0, step_observation_logs = [], sm_logs = []\<rparr>"

definition max_iterations_entry :: log_entry where
  "max_iterations_entry =
     empty_entry\<lparr>error := Some (AgentMaxIterationsError ''Reached max iterations.'')\<rparr>"

text \<open>
  \<open>direct_run\<close>: the loop, then, when the budget is used up without an answer, the entry
  of the exhaustion and the recovery call, whose text is never \<open>None\<close> and is stored
  in that entry. The run returns the answer and the two lists.
\<close>

definition direct_run ::
    "'w agent \<Rightarrow> pyrt \<Rightarrow> planner_prompts
       \<Rightarrow> ('w agent_state \<Rightarrow> step_value outcome \<times> 'w agent_state)
       \<Rightarrow> string \<Rightarrow> bool \<Rightarrow> 'w agent_state
       \<Rightarrow> (py_exception + (pyval \<times> pyval list \<times> pyval list)) \<times> 'w agent_state" where
  "direct_run ag rt pp step tsk is_mistral s =
     (case direct_loop ag rt pp step tsk is_mistral initial_vars s of
        (Inl exn, s1) \<Rightarrow> (Inl exn, s1)
      | (Inr vars, s1) \<Rightarrow>
          if answer vars = VNone \<and> iteration vars = max_iterations ag
          then (case provide_final_answer ag rt tsk is_mistral
                       (s1\<lparr>logs := logs s1 @ [max_iterations_entry]\<rparr>) of
                  (Inl exn, s2) \<Rightarrow> (Inl exn, s2)
                | (Inr text, s2) \<Rightarrow>
                    (Inr (VStr text, step_observation_logs vars, sm_logs vars),
                     s2\<lparr>logs := logs s1 @
                            [max_iterations_entry\<lparr>final_answer := Some (VStr text)\<rparr>]\<rparr>))
          else (Inr (answer vars, step_observation_logs vars, sm_logs vars), s1))"


section \<open>Starting a run\<close>

definition format_prompt_with_tools :: "'w agent \<Rightarrow> string \<Rightarrow> string \<Rightarrow> string" where
  "format_prompt_with_tools ag prompt_template template =
     (let tool_descriptions = show_tool_descriptions ag template;
          prompt = py_replace ''<<tool_descriptions>>'' tool_descriptions prompt_template
      in if contains ''<<tool_names>>'' prompt
         then py_replace ''<<tool_names>>''
                (py_join '', '' (map (\<lambda>(n, tool). sq @ n @ sq) (toolbox ag))) prompt
         else prompt)"

definition format_prompt_with_imports :: "string \<Rightarrow> string \<Rightarrow> agent_error + string" where
  "format_prompt_with_imports prompt_template imports =
     (if \<not> contains ''<<authorized_imports>>'' prompt_template
      then Inl (AgentError (''Tag '' @ sq @ ''<<authorized_imports>>'' @ sq
                            @ '' should be provided in the prompt.''))
      else Inr (py_replace ''<<authorized_imports>>'' imports prompt_template))"

text \<open>
  \<open>initialize_for_run\<close> renders the system prompt and resets the log to entry 0, which
  holds the system prompt and the task.
\<close>

definition initialize_for_run ::
    "'w agent \<Rightarrow> string \<Rightarrow> 'w agent_state \<Rightarrow> agent_error + 'w agent_state" where
  "initialize_for_run ag self_task s =
     (let rendered = format_prompt_with_tools ag (system_prompt_template ag)
                       (tool_description_template ag)
      in case (case authorized_imports ag of
                 None \<Rightarrow> Inr rendered
               | Some imports \<Rightarrow> format_prompt_with_imports rendered imports) of
           Inl err \<Rightarrow> Inl err
         | Inr sp \<Rightarrow>
             Inr (s\<lparr>logs := [empty_entry\<lparr>system_prompt := Some sp, task := Some self_task\<rparr>]\<rparr>))"

section \<open>The streaming loop\<close>

text \<open>
  \<open>step_logs, ob = self.step()\<close> in \<open>stream_run\<close>: the value of the step is unpacked
  into two names.
\<close>

definition unpack_step2 :: "step_value \<Rightarrow> py_exception + (step_logs \<times> pyval)" where
  "unpack_step2 v =
     (case v of
        RetPair e ob \<Rightarrow> Inr (StepEntry e, ob)
      | RetTriple e ob sm \<Rightarrow>
          Inl (PyException ''ValueError'' ''too many values to unpack (expected 2)'')
      | RetEntry e \<Rightarrow>
          (case entry_keys e of
             [k1, k2] \<Rightarrow> Inr (StepKey k1, VStr k2)
           | ks \<Rightarrow>
               if length ks < 2
               then Inl (PyException ''ValueError''
                           (''not enough values to unpack (expected 2, got ''
                            @ str_of_nat (length ks) @ '')''))
               else Inl (PyException ''ValueError'' ''too many values to unpack (expected 2)'')))"

text \<open>
  One iteration of the loop of \<open>stream_run\<close>, read to its end: the \<open>finally\<close> block
  counts the iteration and yields the last entry of the log, also when an exception is
  leaving the loop. The second component is what the iteration yields.
\<close>

definition stream_iteration ::
    "('w agent_state \<Rightarrow> step_value outcome \<times> 'w agent_state) \<Rightarrow> run_vars \<Rightarrow> 'w agent_state
       \<Rightarrow> (py_exception + run_vars) \<times> log_entry list \<times> 'w agent_state" where
  "stream_iteration step vars s =
     (case (case step s of
              (Raises exn, s2) \<Rightarrow> (Inl exn, s2)
            | (RaisesAgent e, s2) \<Rightarrow>
                (case set_last_error e (logs s2) of
                   Inl exn \<Rightarrow> (Inl exn, s2)
                 | Inr lgs \<Rightarrow> (Inr vars, s2\<lparr>logs := lgs\<rparr>))
            | (Returns v, s2) \<Rightarrow>
                (case unpack_step2 v of
                   Inl exn \<Rightarrow> (Inl exn, s2)
                 | Inr (sl, ob) \<Rightarrow>
                     (case read_final_answer sl (answer vars) of
                        Inl exn \<Rightarrow> (Inl exn, s2)
                      | Inr a \<Rightarrow>
                          (Inr (vars\<lparr>answer := a,
                                     step_observation_logs := step_observation_logs vars @ [ob]\<rparr>),
                           s2)))) of
        (tried, s3) \<Rightarrow>
          if logs s3 = []
          then (Inl (PyException ''IndexError'' ''list index out of range''), [], s3)
          else (case tried of
                  Inl exn \<Rightarrow> (Inl exn, [last (logs s3)], s3)
                | Inr vars' \<Rightarrow>
                    (Inr (vars'\<lparr>iteration := iteration vars + 1\<rparr>), [last (logs s3)], s3)))"

lemma stream_iteration_counts:
  "stream_iteration step vars s = (Inr vars', ys, s') \<Longrightarrow> iteration vars' = iteration vars + 1"
  by (auto simp: stream_iteration_def
      split: prod.splits option.splits outcome.splits sum.splits if_splits)

function stream_loop ::
    "'w agent \<Rightarrow> ('w agent_state \<Rightarrow> step_value outcome \<times> 'w agent_state)
       \<Rightarrow> run_vars \<Rightarrow> log_entry list \<Rightarrow> 'w agent_state
       \<Rightarrow> (py_exception + run_vars) \<times> log_entry list \<times> 'w agent_state" where
  "stream_loop ag step vars yielded s =
     (if answer vars = VNone \<and> iteration vars < max_iterations ag
      then (case stream_iteration step vars s of
              (Inl exn, ys, s') \<Rightarrow> (Inl exn, yielded @ ys, s')
            | (Inr vars', ys, s') \<Rightarrow> stream_loop ag step vars' (yielded @ ys) s')
      else (Inr vars, yielded, s))"
  by pat_completeness auto
termination
  by (relation "measure (\<lambda>(ag, step, vars, yielded, s).
        nat (max_iterations ag - iteration vars))")
    (auto dest!: stream_iteration_counts[OF sym])

declare stream_loop.simps [simp del]

text \<open>
  \<open>stream_run\<close>, read to its end: the entries it yields, the pair of the answer and the
  observations that it yields last, and the state. After the loop the recovered text is
  stored in the entry of the exhaustion without a test.
\<close>

definition stream_run ::
    "'w agent \<Rightarrow> pyrt \<Rightarrow> ('w agent_state \<Rightarrow> step_value outcome \<times> 'w agent_state)
       \<Rightarrow> string \<Rightarrow> bool \<Rightarrow> 'w agent_state
       \<Rightarrow> (py_exception + (pyval \<times> pyval list)) \<times> log_entry list \<times> 'w agent_state" where
  "stream_run ag rt step tsk is_mistral s =
     (case stream_loop ag step initial_vars [] s of
        (Inl exn, yielded, s1) \<Rightarrow> (Inl exn, yielded, s1)
      | (Inr vars, yielded, s1) \<Rightarrow>
          if answer vars = VNone \<and> iteration vars = max_iterations ag
          then (case provide_final_answer ag rt tsk is_mistral
                       (s1\<lparr>logs := logs s1 @ [max_iterations_entry]\<rparr>) of
                  (Inl exn, s2) \<Rightarrow> (Inl exn, yielded, s2)
                | (Inr text, s2) \<Rightarrow>
                    (Inr (VStr text, step_observation_logs vars),
                     yielded @ [max_iterations_entry\<lparr>final_answer := Some (VStr text)\<rparr>],
                     s2\<lparr>logs := logs s1 @
                            [max_iterations_entry\<lparr>final_answer := Some (VStr text)\<rparr>]\<rparr>))
          else (Inr (answer vars, step_observation_logs vars), yielded, s1))"


section \<open>The method \<open>run\<close>\<close>

text \<open>
  The start of \<open>run\<close>: the keyword arguments become the State and are named in the task
  of entry 0; with \<open>reset\<close> the log starts anew, else an entry with the task is appended
  to it.
\<close>

definition start_run ::
    "'w agent \<Rightarrow> pyrt \<Rightarrow> string \<Rightarrow> bool \<Rightarrow> (string \<times> pyval) list \<Rightarrow> 'w agent_state
       \<Rightarrow> agent_error + 'w agent_state" where
  "start_run ag rt tsk reset kwargs s =
     (let self_task =
            (if 0 < length kwargs
             then tsk @ nl @ ''You have been provided with these initial arguments: ''
                  @ py_str rt (VDict kwargs) @ ''.''
             else tsk);
          s0 = s\<lparr>state := kwargs\<rparr>
      in if reset then initialize_for_run ag self_task s0
         else Inr (s0\<lparr>logs := logs s0 @ [empty_entry\<lparr>task := Some tsk\<rparr>]\<rparr>))"

text \<open>
  \<open>run\<close> with \<open>stream=False\<close>, which ends in \<open>direct_run\<close>, and with
  \<open>stream=True\<close>, which ends in \<open>stream_run\<close>; both get the task as it was given.
\<close>

definition run ::
    "'w agent \<Rightarrow> pyrt \<Rightarrow> planner_prompts
       \<Rightarrow> ('w agent_state \<Rightarrow> step_value outcome \<times> 'w agent_state)
       \<Rightarrow> string \<Rightarrow> bool \<Rightarrow> bool \<Rightarrow> (string \<times> pyval) list \<Rightarrow> 'w agent_state
       \<Rightarrow> (pyval \<times> pyval list \<times> pyval list) outcome \<times> 'w agent_state" where
  "run ag rt pp step tsk reset is_mistral kwargs s =
     (case start_run ag rt tsk reset kwargs s of
        Inl err \<Rightarrow> (RaisesAgent err, s\<lparr>state := kwargs\<rparr>)
      | Inr s1 \<Rightarrow>
          (case direct_run ag rt pp step tsk is_mistral s1 of
             (Inl exn, s2) \<Rightarrow> (Raises exn, s2)
           | (Inr result, s2) \<Rightarrow> (Returns result, s2)))"

definition run_stream ::
    "'w agent \<Rightarrow> pyrt \<Rightarrow> ('w agent_state \<Rightarrow> step_value outcome \<times> 'w agent_state)
       \<Rightarrow> string \<Rightarrow> bool \<Rightarrow> bool \<Rightarrow> (string \<times> pyval) list \<Rightarrow> 'w agent_state
       \<Rightarrow> (pyval \<times> pyval list) outcome \<times> log_entry list \<times> 'w agent_state" where
  "run_stream ag rt step tsk reset is_mistral kwargs s =
     (case start_run ag rt tsk reset kwargs s of
        Inl err \<Rightarrow> (RaisesAgent err, [], s\<lparr>state := kwargs\<rparr>)
      | Inr s1 \<Rightarrow>
          (case stream_run ag rt step tsk is_mistral s1 of
             (Inl exn, yielded, s2) \<Rightarrow> (Raises exn, yielded, s2)
           | (Inr result, yielded, s2) \<Rightarrow> (Returns result, yielded, s2)))"


section \<open>Conditions on a run\<close>

text \<open>Entry 0 holds the system prompt and the task, as \<open>initialize_for_run\<close> leaves it.\<close>

definition entry0_ok :: "log_entry list \<Rightarrow> bool" where
  "entry0_ok lgs =
     (case lgs of [] \<Rightarrow> False | e # rest \<Rightarrow> system_prompt e \<noteq> None \<and> task e \<noteq> None)"

text \<open>
  A value of a step that the loop of \<open>direct_run\<close>, or of \<open>stream_run\<close>, unpacks and
  that gives no final answer: the entry has no key \<open>final_answer\<close>, or holds \<open>None\<close>
  under it.
\<close>

definition triple_without_answer :: "step_value \<Rightarrow> bool" where
  "triple_without_answer v =
     (case v of
        RetTriple e ob sm \<Rightarrow> final_answer e = None \<or> final_answer e = Some VNone
      | _ \<Rightarrow> False)"

definition pair_without_answer :: "step_value \<Rightarrow> bool" where
  "pair_without_answer v =
     (case v of
        RetPair e ob \<Rightarrow> final_answer e = None \<or> final_answer e = Some VNone
      | _ \<Rightarrow> False)"

text \<open>
  No step produces a final answer: on every state whose entry 0 is complete, the step
  appends one entry to the log, and it raises an \<open>AgentError\<close> or returns a value
  without a final answer.
\<close>

definition step_gives_no_answer ::
    "(step_value \<Rightarrow> bool) \<Rightarrow> ('w agent_state \<Rightarrow> step_value outcome \<times> 'w agent_state) \<Rightarrow> bool" where
  "step_gives_no_answer without_answer step \<longleftrightarrow>
     (\<forall>s. entry0_ok (logs s) \<longrightarrow>
        (\<exists>entry. logs (snd (step s)) = logs s @ [entry])
        \<and> (case fst (step s) of
              RaisesAgent e \<Rightarrow> True
            | Returns v \<Rightarrow> without_answer v
            | Raises exn \<Rightarrow> False))"

text \<open>
  A step appends one entry to the log whenever it does not end in an exception that is
  no \<open>AgentError\<close>.
\<close>

definition step_appends_entry ::
    "('w agent_state \<Rightarrow> step_value outcome \<times> 'w agent_state) \<Rightarrow> bool" where
  "step_appends_entry step \<longleftrightarrow>
     (\<forall>s. case fst (step s) of
            Raises exn \<Rightarrow> True
          | _ \<Rightarrow> (\<exists>entry. logs (snd (step s)) = logs s @ [entry]))"

text \<open>
  The number of the iterations from \<open>i\<close> up to, and without, \<open>j\<close> at whose start
  \<open>planning_step\<close> runs.
\<close>

definition planning_steps :: "int option \<Rightarrow> int \<Rightarrow> int \<Rightarrow> nat" where
  "planning_steps interval i j =
     (case interval of
        None \<Rightarrow> 0
      | Some p \<Rightarrow> length (filter (\<lambda>k. k mod p = 0) [i..j - 1]))"


text \<open>
  A step sets at most one of \<open>error\<close> and \<open>final_answer\<close>: when it raises an
  \<open>AgentError\<close> the entry it appended has no final answer (the loop then stores the
  error in that entry), and when it returns the entry has no error.
\<close>

definition step_sets_one ::
    "('w agent_state \<Rightarrow> step_value outcome \<times> 'w agent_state) \<Rightarrow> bool" where
  "step_sets_one step \<longleftrightarrow>
     (\<forall>s. case fst (step s) of
            Raises exn \<Rightarrow> True
          | RaisesAgent e \<Rightarrow>
              (\<exists>entry. logs (snd (step s)) = logs s @ [entry] \<and> final_answer entry = None)
          | Returns v \<Rightarrow>
              (\<exists>entry. logs (snd (step s)) = logs s @ [entry] \<and> error entry = None))"


text \<open>
  An agent for the examples. The outside world is the number of calls made so far to the
  engine and to the tools. The engine answers every call with the same text; the tool
  \<open>echo\<close> returns the value it is given, positionally or as the keyword \<open>x\<close>, and
  raises on any other keywords.
\<close>

definition echo_tool :: "nat tool" where
  "echo_tool =
     \<lparr>describe = (\<lambda>template. ''- echo: returns its argument''),
      forward = (\<lambda>args w.
        case args of
          Positional v \<Rightarrow> (Inr v, Suc w)
        | Keywords kws \<Rightarrow>
            (case kws of
               [(k, v)] \<Rightarrow> if k = ''x'' then (Inr v, Suc w)
                            else (Inl ''unexpected keyword argument'', Suc w)
             | _ \<Rightarrow> (Inl ''unexpected keyword argument'', Suc w)))\<rparr>"

definition final_answer_tool :: "nat tool" where
  "final_answer_tool =
     \<lparr>describe = (\<lambda>template. ''- final_answer: provides a final answer''),
      forward = (\<lambda>args w.
        case args of
          Positional v \<Rightarrow> (Inr v, Suc w)
        | Keywords kws \<Rightarrow>
            (case map_of kws ''answer'' of
               Some v \<Rightarrow> (Inr v, Suc w)
             | None \<Rightarrow> (Inl ''missing argument answer'', Suc w)))\<rparr>"

definition example_agent :: "string \<Rightarrow> int \<Rightarrow> int option \<Rightarrow> nat agent" where
  "example_agent reply budget interval =
     \<lparr>llm_engine = (\<lambda>messages stop_sequences w. (Inr reply, Suc w)),
      toolbox = [(''echo'', echo_tool), (''final_answer'', final_answer_tool)],
      system_prompt_template = ''You are an agent. Tools: <<tool_descriptions>>'',
      tool_description_template = ''- {{ tool.name }}: {{ tool.description }}'',
      max_iterations = budget,
      tool_parser = parse_json_tool_call example_rt,
      planning_interval = interval,
      authorized_imports = None\<rparr>"


text \<open>
  A reply of the engine that gives the final answer by the name of a stored value, and a
  state whose State stores an image under that name.
\<close>

definition final_answer_example :: string where
  \<open>final_answer_example =
     ''{"action": "final_answer", "action_input": {"answer": "image.png"}}''\<close>

definition final_reply :: string where
  "final_reply = ''Thought: done'' @ nl @ ''Action:'' @ nl @ final_answer_example"

definition final_answer_state :: "nat agent_state" where
  "final_answer_state =
     \<lparr>logs = [entry0_example], state = [(''image.png'', VAgentImage 7)], world = 0\<rparr>"


text \<open>
  Prompts of the planner for the examples, and an agent whose engine raises on every
  call. The start of the example runs has an empty log.
\<close>

definition example_prompts :: planner_prompts where
  "example_prompts =
     \<lparr>SYSTEM_PROMPT_FACTS = ''List the facts.'',
      SYSTEM_PROMPT_PLAN = ''Make a plan.'',
      USER_PROMPT_PLAN = (\<lambda>tsk tool_descriptions answer_facts. ''Plan for: '' @ tsk),
      SYSTEM_PROMPT_FACTS_UPDATE = ''Update the facts.'',
      USER_PROMPT_FACTS_UPDATE = ''Now update the facts.'',
      SYSTEM_PROMPT_PLAN_UPDATE = (\<lambda>tsk. ''Update the plan for: '' @ tsk),
      USER_PROMPT_PLAN_UPDATE =
        (\<lambda>tsk tool_descriptions updated_facts remaining_steps. ''New plan for: '' @ tsk),
      PLAN_UPDATE_FINAL_PLAN_REDACTION = (\<lambda>tsk updated_plan. ''Plan: '' @ updated_plan)\<rparr>"

definition failing_agent :: "int \<Rightarrow> nat agent" where
  "failing_agent budget =
     (example_agent '''' budget None)
       \<lparr>llm_engine := (\<lambda>messages stop_sequences w. (Inl ''boom'', Suc w))\<rparr>"

definition fresh_state :: "nat agent_state" where
  "fresh_state = \<lparr>logs = [], state = [], world = 0\<rparr>"


text \<open>
  An agent whose engine names an action in every reply and whose parser fails on every
  action.
\<close>

definition unparsable_agent :: "int \<Rightarrow> nat agent" where
  "unparsable_agent budget =
     (example_agent (''Thought: hm'' @ nl @ ''Action: nothing'') budget None)
       \<lparr>tool_parser := (\<lambda>action. Inl ''no tool call'')\<rparr>"


text \<open>
  The run of the agent whose engine raises, with a budget of one iteration: the state
  after the start of the run and the state after the loop.
\<close>

definition failing_start_state :: "nat agent_state" where
  "failing_start_state =
     \<lparr>logs = [empty_entry
                \<lparr>system_prompt :=
                   Some (''You are an agent. Tools: - echo: returns its argument'' @ nl
                         @ ''- final_answer: provides a final answer''),
                 task := Some ''What is 2+2?''\<rparr>],
      state = [], world = 0\<rparr>"

definition failing_loop_state :: "nat agent_state" where
  "failing_loop_state =
     \<lparr>logs = logs failing_start_state @
        [empty_entry
           \<lparr>agent_memory :=
              Some [\<lparr>role = SYSTEM,
                     content = ''You are an agent. Tools: - echo: returns its argument'' @ nl
                       @ ''- final_answer: provides a final answer''\<rparr>,
                    \<lparr>role = USER, content = ''Task: What is 2+2?''\<rparr>],
            error := Some (AgentGenerationError ''Error in generating llm output: boom.'')\<rparr>],
      state = [], world = 1\<rparr>"


text \<open>
  An agent that plans at the start of every iteration, with a budget of one iteration,
  and the state after the start of its run.
\<close>

definition planning_agent :: "nat agent" where
  "planning_agent = example_agent ''I do not know.'' 1 (Some 1)"

definition planning_start_state :: "nat agent_state" where
  "planning_start_state =
     \<lparr>logs = [empty_entry
                \<lparr>system_prompt :=
                   Some (''You are an agent. Tools: - echo: returns its argument'' @ nl
                         @ ''- final_answer: provides a final answer''),
                 task := Some ''What is 2+2?''\<rparr>],
      state = [], world = 0\<rparr>"


text \<open>
  An agent whose engine asks in every reply for the tool \<open>echo\<close>, so that every step
  succeeds and none gives a final answer; its budget is two iterations.
\<close>

definition echo_reply :: string where
  \<open>echo_reply =
     ''Thought: call echo'' @ nl @ ''Action:'' @ nl
     @ ''{"action": "echo", "action_input": {"x": "hi"}}''\<close>

definition echo_agent :: "nat agent" where
  "echo_agent = example_agent echo_reply 2 None"


section \<open>Properties of the string functions\<close>

lemma starts_with_append: "starts_with p (p @ s)"
  by (induction p) auto

lemma starts_with_prefix: "starts_with (p @ q) s \<Longrightarrow> starts_with p s"
proof (induction p arbitrary: s)
  case Nil
  then show ?case by simp
next
  case (Cons a p)
  then show ?case by (cases s) auto
qed

lemma starts_with_contains: "starts_with p s \<Longrightarrow> contains p s"
  by (cases s) (auto elim: starts_with.elims)



section \<open>Properties of the fenced-block parser\<close>



















section \<open>Properties of the structured-call parser\<close>

lemma labelled_example_text:
  assumes \<open>json_loads rt ''{"query": "x"}'' = Decoded [(''query'', VStr ''x'')]\<close>
  shows "parse_text_tool_call rt labelled_example
    = Inr (''search'', VDict [(''query'', VStr ''x'')])"
  using assms
  by (simp add: parse_text_tool_call_def labelled_example_def nl_def item_def py_split_def
      unpack2_def py_replace_def py_strip_def is_space_def backslash_def parse_json_blob_def
      py_find_def py_slice_def slice_bound_def sq_def)

lemma labelled_example_blob:
  assumes \<open>json_loads rt ''{"query": "x"}'' = Decoded [(''query'', VStr ''x'')]\<close>
  shows "parse_json_blob rt (py_replace ''```'' '''' (py_replace ''```json'' '''' labelled_example))
    = Inr [(''query'', VStr ''x'')]"
  using assms
  by (simp add: labelled_example_def nl_def py_replace_def backslash_def parse_json_blob_def
      py_find_def py_slice_def slice_bound_def sq_def)

lemma structured_example_blob:
  assumes "json_loads rt structured_example = Decoded d"
  shows "parse_json_blob rt (py_replace ''```'' '''' (py_replace ''```json'' '''' structured_example))
    = Inr d"
proof -
  have "py_replace ''```'' '''' (py_replace ''```json'' '''' structured_example)
      = structured_example"
    by (simp add: structured_example_def py_replace_def)
  moreover have "py_replace (backslash @ [CHR 0x22]) sq
      (py_slice structured_example (py_find ''{'' structured_example) (int 51 + 1))
      = structured_example"
    by (simp add: structured_example_def py_replace_def backslash_def py_find_def
        py_slice_def slice_bound_def)
  moreover have "last_index (CHR ''}'') structured_example = Some 51"
    by (simp add: structured_example_def)
  ultimately show ?thesis using assms
    by (simp add: parse_json_blob_def)
qed

lemma tool_call_missing_action:
  assumes "parse_json_blob rt (py_replace ''```'' '''' (py_replace ''```json'' '''' blob)) = Inr d"
    and "map_of d ''action'' = None"
  shows "parse_json_tool_call rt blob =
     Inl (''Missing keys: ''
          @ missing_keys_str
              (''action'' # (if map_of d ''action_input'' = None then [''action_input''] else []))
          @ '' in blob '' @ py_repr rt (VDict d))"
  using assms by (simp add: parse_json_tool_call_def)

lemma tool_call_with_action:
  assumes "parse_json_blob rt (py_replace ''```'' '''' (py_replace ''```json'' '''' blob)) = Inr d"
    and "map_of d ''action'' = Some a"
  shows "parse_json_tool_call rt blob =
     Inr (a, case map_of d ''action_input'' of None \<Rightarrow> VNone | Some i \<Rightarrow> i)"
  using assms by (simp add: parse_json_tool_call_def split: option.splits)

text \<open>
  Claim C3, as the code has it. The runtime decodes the two objects of the examples as
  Python does. Then: the structured-call parser \<open>parse_json_tool_call\<close> yields the tool
  name \<open>search\<close> and the arguments \<open>{query: x}\<close> from the object with the keys
  \<open>action\<close> and \<open>action_input\<close>; the text with the labels \<open>Action:\<close> and
  \<open>Action input:\<close> yields them through the free-text parser \<open>parse_text_tool_call\<close>,
  and the structured-call parser rejects it, since its block has no key \<open>action\<close>.
  For every text whose block is decoded to an object without the key \<open>action\<close>, the
  structured-call parser fails with a message that starts with the list of the missing
  keys, \<open>action\<close> first; with \<open>action\<close> and without \<open>action_input\<close> it yields the
  action and \<open>None\<close>.
\<close>

theorem parse_json_tool_call_keys:
  assumes \<open>json_loads rt ''{"query": "x"}'' = Decoded [(''query'', VStr ''x'')]\<close>
    and "json_loads rt structured_example =
           Decoded [(''action'', VStr ''search''),
                    (''action_input'', VDict [(''query'', VStr ''x'')])]"
  shows "parse_json_tool_call rt structured_example
           = Inr (VStr ''search'', VDict [(''query'', VStr ''x'')])
    \<and> parse_text_tool_call rt labelled_example
           = Inr (''search'', VDict [(''query'', VStr ''x'')])
    \<and> parse_json_tool_call rt labelled_example
           = Inl (''Missing keys: '' @ missing_keys_str [''action'', ''action_input'']
                  @ '' in blob '' @ py_repr rt (VDict [(''query'', VStr ''x'')]))
    \<and> (parse_json_blob rt (py_replace ''```'' '''' (py_replace ''```json'' '''' blob1)) = Inr d1
          \<and> map_of d1 ''action'' = None
        \<longrightarrow> parse_json_tool_call rt blob1
              = Inl (''Missing keys: ''
                     @ missing_keys_str
                         (''action'' # (if map_of d1 ''action_input'' = None
                                        then [''action_input''] else []))
                     @ '' in blob '' @ py_repr rt (VDict d1)))
    \<and> (parse_json_blob rt (py_replace ''```'' '''' (py_replace ''```json'' '''' blob2)) = Inr d2
          \<and> map_of d2 ''action'' = Some a \<and> map_of d2 ''action_input'' = None
        \<longrightarrow> parse_json_tool_call rt blob2 = Inr (a, VNone))"
proof (intro conjI impI)
  show "parse_json_tool_call rt structured_example
      = Inr (VStr ''search'', VDict [(''query'', VStr ''x'')])"
    using tool_call_with_action[OF structured_example_blob[OF assms(2)], of "VStr ''search''"]
    by simp
  show "parse_text_tool_call rt labelled_example
      = Inr (''search'', VDict [(''query'', VStr ''x'')])"
    using assms(1) by (rule labelled_example_text)
  show "parse_json_tool_call rt labelled_example
      = Inl (''Missing keys: '' @ missing_keys_str [''action'', ''action_input'']
             @ '' in blob '' @ py_repr rt (VDict [(''query'', VStr ''x'')]))"
    using tool_call_missing_action[OF labelled_example_blob[OF assms(1)]] by simp
next
  assume "parse_json_blob rt (py_replace ''```'' '''' (py_replace ''```json'' '''' blob1)) = Inr d1
    \<and> map_of d1 ''action'' = None"
  then show "parse_json_tool_call rt blob1
      = Inl (''Missing keys: ''
             @ missing_keys_str
                 (''action'' # (if map_of d1 ''action_input'' = None
                                then [''action_input''] else []))
             @ '' in blob '' @ py_repr rt (VDict d1))"
    using tool_call_missing_action[of rt blob1 d1] by simp
next
  assume "parse_json_blob rt (py_replace ''```'' '''' (py_replace ''```json'' '''' blob2)) = Inr d2
    \<and> map_of d2 ''action'' = Some a \<and> map_of d2 ''action_input'' = None"
  then show "parse_json_tool_call rt blob2 = Inr (a, VNone)"
    using tool_call_with_action[of rt blob2 d2 a] by simp
qed

theorem parse_json_tool_call_keys_witness:
  \<open>json_loads example_rt ''{"query": "x"}'' = Decoded [(''query'', VStr ''x'')]
   \<and> json_loads example_rt structured_example =
           Decoded [(''action'', VStr ''search''),
                    (''action_input'', VDict [(''query'', VStr ''x'')])]
   \<and> parse_json_tool_call example_rt structured_example
           = Inr (VStr ''search'', VDict [(''query'', VStr ''x'')])
   \<and> parse_text_tool_call example_rt labelled_example
           = Inr (''search'', VDict [(''query'', VStr ''x'')])
   \<and> parse_json_blob example_rt
        (py_replace ''```'' '''' (py_replace ''```json'' '''' ''{"query": "x"}''))
        = Inr [(''query'', VStr ''x'')]
   \<and> map_of [(''query'', VStr ''x'')] ''action'' = None
   \<and> parse_json_tool_call example_rt ''{"query": "x"}''
        = Inl (''Missing keys: ['' @ sq @ ''action'' @ sq @ '', '' @ sq @ ''action_input'' @ sq
               @ ''] in blob {'' @ sq @ ''query'' @ sq @ '': '' @ sq @ ''x'' @ sq @ ''}'')
   \<and> parse_json_blob example_rt
        (py_replace ''```'' '''' (py_replace ''```json'' '''' ''{"action": "search"}''))
        = Inr [(''action'', VStr ''search'')]
   \<and> map_of [(''action'', VStr ''search'')] ''action'' = Some (VStr ''search'')
   \<and> map_of [(''action'', VStr ''search'')] ''action_input'' = None
   \<and> parse_json_tool_call example_rt ''{"action": "search"}'' = Inr (VStr ''search'', VNone)\<close>
proof -
  have h1: \<open>json_loads example_rt ''{"query": "x"}'' = Decoded [(''query'', VStr ''x'')]\<close>
    by (simp add: example_rt_def example_json_loads_def)
  have h2: "json_loads example_rt structured_example =
      Decoded [(''action'', VStr ''search''),
               (''action_input'', VDict [(''query'', VStr ''x'')])]"
    by (simp add: example_rt_def example_json_loads_def structured_example_def)
  have b1: \<open>parse_json_blob example_rt
      (py_replace ''```'' '''' (py_replace ''```json'' '''' ''{"query": "x"}''))
      = Inr [(''query'', VStr ''x'')]\<close>
    by (simp add: py_replace_def backslash_def parse_json_blob_def py_find_def py_slice_def
        slice_bound_def example_rt_def example_json_loads_def)
  have b2: \<open>parse_json_blob example_rt
      (py_replace ''```'' '''' (py_replace ''```json'' '''' ''{"action": "search"}''))
      = Inr [(''action'', VStr ''search'')]\<close>
    by (simp add: py_replace_def backslash_def parse_json_blob_def py_find_def py_slice_def
        slice_bound_def example_rt_def example_json_loads_def)
  have r: "py_repr example_rt (VDict [(''query'', VStr ''x'')])
      = ''{'' @ sq @ ''query'' @ sq @ '': '' @ sq @ ''x'' @ sq @ ''}''"
    by (simp add: example_rt_def example_repr_def)
  show ?thesis
    using parse_json_tool_call_keys[OF h1 h2,
        of \<open>''{"query": "x"}''\<close> "[(''query'', VStr ''x'')]"
           \<open>''{"action": "search"}''\<close> "[(''action'', VStr ''search'')]" "VStr ''search''"]
      h1 h2 b1 b2 r
    by (simp add: missing_keys_str_def)
qed

text \<open>
  The text with the labels has no key \<open>action\<close> in its block: the structured-call
  parser fails on it.
\<close>

theorem parse_json_tool_call_labelled_counterexample:
  "parse_json_tool_call example_rt labelled_example
     = Inl (''Missing keys: ['' @ sq @ ''action'' @ sq @ '', '' @ sq @ ''action_input'' @ sq
            @ ''] in blob {'' @ sq @ ''query'' @ sq @ '': '' @ sq @ ''x'' @ sq @ ''}'')"
  by (simp add: parse_json_tool_call_def labelled_example_def nl_def py_replace_def
      backslash_def parse_json_blob_def py_find_def py_slice_def slice_bound_def sq_def
      example_rt_def example_json_loads_def example_repr_def missing_keys_str_def)


section \<open>Properties of splitting\<close>



lemma split_from_nonempty: "split_from sep k cur s \<noteq> []"
  by (induction sep k cur s rule: split_from.induct) auto

lemma split_from_no_sep: "\<not> contains sep s \<Longrightarrow> split_from sep 0 cur s = [rev cur @ s]"
  by (induction s arbitrary: cur) auto









lemma first_char_absent: "a \<notin> set s \<Longrightarrow> \<not> contains (a # r) s"
  by (induction s) auto

lemma split_from_skip: "split_from sep (length xs) [] (xs @ s) = split_from sep 0 [] s"
  by (induction xs) auto

lemma split_from_at_sep:
  "a \<notin> set pre \<Longrightarrow>
   split_from (a # r) 0 cur (pre @ (a # r) @ s) = (rev cur @ pre) # split_from (a # r) 0 [] s"
proof (induction pre arbitrary: cur)
  case Nil
  show ?case using split_from_skip[of "a # r" r s] by (simp add: starts_with_append[of r s, simplified])
next
  case (Cons c cs)
  then show ?case by simp
qed

lemma py_split_at_sep:
  "a \<notin> set pre \<Longrightarrow> \<not> contains (a # r) s \<Longrightarrow> py_split (a # r) (pre @ (a # r) @ s) = [pre, s]"
  using split_from_at_sep[of a pre r "[]" s] by (simp add: py_split_def split_from_no_sep)

section \<open>Properties of the free-text parser\<close>












lemma py_split_nonempty: "py_split sep s \<noteq> []"
  by (simp add: py_split_def split_from_nonempty)











text \<open>
  Claim C9 as stated fails for the marker \<open>Action:\<close>. A text with the tool name, a
  newline and \<open>Action input: x\<close> holds neither \<open>Action:\<close> nor \<open>Observation:\<close>, and
  it parses: the tool is \<open>search\<close> and the input is \<open>x\<close>.
\<close>

theorem missing_action_marker_counterexample:
  "\<not> sublist ''Action:'' (''search'' @ nl @ ''Action input: x'')
   \<and> \<not> sublist ''Observation:'' (''search'' @ nl @ ''Action input: x'')
   \<and> parse_text_tool_call example_rt (''search'' @ nl @ ''Action input: x'')
       = Inr (''search'', VStr ''x'')"
  by (intro conjI; code_simp)


section \<open>Properties of the memory builder\<close>

lemma step_messages_tool_response:
  "filter (\<lambda>m. role m = TOOL_RESPONSE) (step_messages rt summary_mode i e)
     = tool_response_of rt i e"
  by (simp add: step_messages_def tool_response_of_def split: option.splits prod.splits)

lemma step_messages_no_system: "m \<in> set (step_messages rt summary_mode i e) \<Longrightarrow> role m \<noteq> SYSTEM"
  by (auto simp: step_messages_def split: option.splits prod.splits if_splits)

lemma memory_steps_no_system: "SYSTEM \<notin> role ` set (memory_steps rt summary_mode i steps)"
  by (induction steps arbitrary: i) (auto dest: step_messages_no_system)

lemma memory_steps_tool_responses:
  "filter (\<lambda>m. role m = TOOL_RESPONSE) (memory_steps rt summary_mode i steps)
     = concat (map (\<lambda>(k, e). tool_response_of rt k e) (enumerate i steps))"
  by (induction steps arbitrary: i) (auto simp: step_messages_tool_response)

lemma memory_tool_responses:
  assumes "write_inner_memory_from_logs rt summary_mode is_mistral (entry0 # steps) = Inr memory"
  shows "filter (\<lambda>m. role m = TOOL_RESPONSE) memory
     = concat (map (\<lambda>(k, e). tool_response_of rt k e) (enumerate 0 steps))"
  using assms memory_steps_tool_responses[of rt summary_mode 0 steps]
  by (auto simp: write_inner_memory_from_logs_def Let_def split: option.splits if_splits)

lemma memory_entry0:
  assumes "system_prompt entry0 = Some sp" and "task entry0 = Some t"
  shows "write_inner_memory_from_logs rt summary_mode is_mistral (entry0 # steps) =
     Inr ((if summary_mode then []
           else if is_mistral
             then [\<lparr>role = USER, content = py_replace ''<<tool_descriptions>>'' '''' sp\<rparr>]
           else [\<lparr>role = SYSTEM, content = sp\<rparr>])
          @ [\<lparr>role = USER, content = ''Task: '' @ t\<rparr>]
          @ memory_steps rt summary_mode 0 steps)"
  using assms by (simp add: write_inner_memory_from_logs_def)

text \<open>
  Claim C5. Among the messages that the memory builder emits for an entry after entry 0,
  the tool-response messages are those of \<open>tool_response_of\<close>: exactly one when the
  entry carries an error or an observation, built from the error, followed by the retry
  guidance of the source, whenever there is an error (also when there is an observation
  too), and from the observation otherwise. The tool-response messages of a whole memory are these, entry by
  entry, with the entries numbered from 0.
\<close>

theorem memory_one_tool_response:
  "filter (\<lambda>m. role m = TOOL_RESPONSE) (step_messages rt summary_mode i e)
     = tool_response_of rt i e
   \<and> (error e \<noteq> None \<or> observation e \<noteq> None
        \<longrightarrow> length (filter (\<lambda>m. role m = TOOL_RESPONSE) (step_messages rt summary_mode i e)) = 1)
   \<and> (error e = Some err
        \<longrightarrow> filter (\<lambda>m. role m = TOOL_RESPONSE) (step_messages rt summary_mode i e)
            = [\<lparr>role = TOOL_RESPONSE,
                content = ''[OUTPUT OF STEP '' @ str_of_nat i @ ''] Error: '' @ error_message err
                  @ nl @ ''Now let'' @ sq
                  @ ''s retry: take care not to repeat previous errors! ''
                  @ ''If you have retried several times, try a completely different approach.''
                  @ nl\<rparr>])
   \<and> (error e = None \<and> observation e = Some ob
        \<longrightarrow> filter (\<lambda>m. role m = TOOL_RESPONSE) (step_messages rt summary_mode i e)
            = [\<lparr>role = TOOL_RESPONSE,
                content = ''[OUTPUT OF STEP '' @ str_of_nat i @ ''] Observation:'' @ nl
                  @ py_str rt ob\<rparr>])
   \<and> (write_inner_memory_from_logs rt summary_mode is_mistral (entry0 # steps) = Inr memory
        \<longrightarrow> filter (\<lambda>m. role m = TOOL_RESPONSE) memory
            = concat (map (\<lambda>(k, e). tool_response_of rt k e) (enumerate 0 steps)))"
  using memory_tool_responses[of rt summary_mode is_mistral entry0 steps memory]
  by (auto simp: step_messages_tool_response tool_response_of_def retry_guidance_def
      split: option.splits)

theorem memory_one_tool_response_witness:
  "error failed_entry_example = Some (AgentExecutionError ''boom'')
   \<and> observation failed_entry_example = Some (VStr ''4'')
   \<and> length (filter (\<lambda>m. role m = TOOL_RESPONSE)
        (step_messages example_rt False 0 failed_entry_example)) = 1
   \<and> filter (\<lambda>m. role m = TOOL_RESPONSE) (step_messages example_rt False 0 failed_entry_example)
       = [\<lparr>role = TOOL_RESPONSE,
           content = ''[OUTPUT OF STEP 0] Error: boom'' @ nl @ ''Now let'' @ sq
                  @ ''s retry: take care not to repeat previous errors! ''
                  @ ''If you have retried several times, try a completely different approach.''
                  @ nl\<rparr>]
   \<and> error (empty_entry\<lparr>observation := Some (VStr ''4'')\<rparr>) = None
   \<and> observation (empty_entry\<lparr>observation := Some (VStr ''4'')\<rparr>) = Some (VStr ''4'')
   \<and> filter (\<lambda>m. role m = TOOL_RESPONSE)
        (step_messages example_rt True 1 (empty_entry\<lparr>observation := Some (VStr ''4'')\<rparr>))
       = [\<lparr>role = TOOL_RESPONSE, content = ''[OUTPUT OF STEP 1] Observation:'' @ nl @ ''4''\<rparr>]
   \<and> write_inner_memory_from_logs example_rt False False [entry0_example, failed_entry_example]
       = Inr [\<lparr>role = SYSTEM, content = ''You are an agent.''\<rparr>,
              \<lparr>role = USER, content = ''Task: What is 2+2?''\<rparr>,
              \<lparr>role = TOOL_RESPONSE,
                content = ''[OUTPUT OF STEP 0] Error: boom'' @ nl @ ''Now let'' @ sq
                  @ ''s retry: take care not to repeat previous errors! ''
                  @ ''If you have retried several times, try a completely different approach.''
                  @ nl\<rparr>]
   \<and> filter (\<lambda>m. role m = TOOL_RESPONSE)
        [\<lparr>role = SYSTEM, content = ''You are an agent.''\<rparr>,
         \<lparr>role = USER, content = ''Task: What is 2+2?''\<rparr>,
         \<lparr>role = TOOL_RESPONSE,
           content = ''[OUTPUT OF STEP 0] Error: boom'' @ nl @ ''Now let'' @ sq
                  @ ''s retry: take care not to repeat previous errors! ''
                  @ ''If you have retried several times, try a completely different approach.''
                  @ nl\<rparr>]
       = tool_response_of example_rt 0 failed_entry_example"
proof -
  have m: "write_inner_memory_from_logs example_rt False False
        [entry0_example, failed_entry_example]
      = Inr [\<lparr>role = SYSTEM, content = ''You are an agent.''\<rparr>,
             \<lparr>role = USER, content = ''Task: What is 2+2?''\<rparr>,
             \<lparr>role = TOOL_RESPONSE,
               content = ''[OUTPUT OF STEP 0] Error: boom'' @ nl @ ''Now let'' @ sq
                  @ ''s retry: take care not to repeat previous errors! ''
                  @ ''If you have retried several times, try a completely different approach.''
                  @ nl\<rparr>]"
    by (simp add: write_inner_memory_from_logs_def entry0_example_def failed_entry_example_def
        empty_entry_def step_messages_def str_of_nat.simps retry_guidance_def)
  have f: "error failed_entry_example = Some (AgentExecutionError ''boom'')"
    by (simp add: failed_entry_example_def empty_entry_def)
  have o: "error (empty_entry\<lparr>observation := Some (VStr ''4'')\<rparr>) = None
      \<and> observation (empty_entry\<lparr>observation := Some (VStr ''4'')\<rparr>) = Some (VStr ''4'')"
    by (simp add: empty_entry_def)
  show ?thesis
    using memory_one_tool_response[of example_rt False 0 failed_entry_example
        "AgentExecutionError ''boom''" "VStr ''4''" False entry0_example
        "[failed_entry_example]"
        "[\<lparr>role = SYSTEM, content = ''You are an agent.''\<rparr>,
          \<lparr>role = USER, content = ''Task: What is 2+2?''\<rparr>,
          \<lparr>role = TOOL_RESPONSE,
            content = ''[OUTPUT OF STEP 0] Error: boom'' @ nl @ ''Now let'' @ sq
                  @ ''s retry: take care not to repeat previous errors! ''
                  @ ''If you have retried several times, try a completely different approach.''
                  @ nl\<rparr>]"]
      memory_one_tool_response[of example_rt True 1
        "empty_entry\<lparr>observation := Some (VStr ''4'')\<rparr>" "AgentExecutionError ''boom''"
        "VStr ''4''" False entry0_example "[]" "[]"]
      m f o
    by (simp add: str_of_nat.simps py_str_def enumerate_eq_zip tool_response_of_def
        failed_entry_example_def empty_entry_def retry_guidance_def)
qed

text \<open>
  Claim C6, as the code has it. When entry 0 holds the system prompt and the task:
  outside summary mode the memory starts with a system message holding the system prompt
  and a user message holding \<open>Task: \<close> and the task; with the flag \<open>is_mistral\<close> the
  first of the two is a user message instead, holding the system prompt without the tag
  \<open><<tool_descriptions>>\<close>, and the two stay separate messages; in summary mode the
  memory starts with the user message of the task alone. No later entry gives a system
  message.
\<close>

theorem memory_entry0_messages:
  assumes "system_prompt entry0 = Some sp" and "task entry0 = Some t"
  shows "write_inner_memory_from_logs rt False False (entry0 # steps)
      = Inr (\<lparr>role = SYSTEM, content = sp\<rparr> # \<lparr>role = USER, content = ''Task: '' @ t\<rparr>
             # memory_steps rt False 0 steps)
    \<and> write_inner_memory_from_logs rt False True (entry0 # steps)
      = Inr (\<lparr>role = USER, content = py_replace ''<<tool_descriptions>>'' '''' sp\<rparr>
             # \<lparr>role = USER, content = ''Task: '' @ t\<rparr> # memory_steps rt False 0 steps)
    \<and> write_inner_memory_from_logs rt True is_mistral (entry0 # steps)
      = Inr (\<lparr>role = USER, content = ''Task: '' @ t\<rparr> # memory_steps rt True 0 steps)
    \<and> SYSTEM \<notin> role ` set (memory_steps rt summary_mode 0 steps)"
  using memory_entry0[OF assms, of rt False False steps]
    memory_entry0[OF assms, of rt False True steps]
    memory_entry0[OF assms, of rt True is_mistral steps]
    memory_steps_no_system[of rt summary_mode 0 steps]
  by simp

theorem memory_entry0_messages_witness:
  "system_prompt entry0_example = Some ''You are an agent.''
   \<and> task entry0_example = Some ''What is 2+2?''
   \<and> write_inner_memory_from_logs example_rt False False [entry0_example, failed_entry_example]
      = Inr (\<lparr>role = SYSTEM, content = ''You are an agent.''\<rparr>
             # \<lparr>role = USER, content = ''Task: What is 2+2?''\<rparr>
             # memory_steps example_rt False 0 [failed_entry_example])
   \<and> write_inner_memory_from_logs example_rt True False [entry0_example, failed_entry_example]
      = Inr (\<lparr>role = USER, content = ''Task: What is 2+2?''\<rparr>
             # memory_steps example_rt True 0 [failed_entry_example])"
proof -
  have h: "system_prompt entry0_example = Some ''You are an agent.''"
      "task entry0_example = Some ''What is 2+2?''"
    by (simp_all add: entry0_example_def empty_entry_def)
  show ?thesis
    using memory_entry0_messages[OF h, of example_rt "[failed_entry_example]" False] h
    by simp
qed

text \<open>
  In summary mode the memory of a log that holds entry 0 alone is the user message of the
  task: there is no system message. With \<open>is_mistral\<close> there are two user messages.
\<close>

theorem memory_entry0_counterexample:
  "write_inner_memory_from_logs example_rt True False [entry0_example]
     = Inr [\<lparr>role = USER, content = ''Task: What is 2+2?''\<rparr>]
   \<and> write_inner_memory_from_logs example_rt False True [entry0_example]
     = Inr [\<lparr>role = USER, content = ''You are an agent.''\<rparr>,
            \<lparr>role = USER, content = ''Task: What is 2+2?''\<rparr>]"
  by (simp add: write_inner_memory_from_logs_def entry0_example_def empty_entry_def
      py_replace_def)


section \<open>Properties of the tool executor\<close>

lemma substitute_state_keys: "map fst (substitute_state st items) = map fst items"
  by (induction items) (auto simp: substitute_state_def)

lemma substitute_state_stored:
  "(k, v) \<in> set items \<Longrightarrow> as_str v = Some x \<Longrightarrow> map_of st x = Some stored \<Longrightarrow>
   (k, stored) \<in> set (substitute_state st items)"
  by (force simp: substitute_state_def)

lemma substitute_state_kept:
  "(k, v) \<in> set items \<Longrightarrow>
   as_str v = None \<or> (\<exists>x. as_str v = Some x \<and> map_of st x = None) \<Longrightarrow>
   (k, v) \<in> set (substitute_state st items)"
  by (force simp: substitute_state_def)

lemma execute_unknown:
  "toolbox_lookup (toolbox ag) tool_name = Inr None \<Longrightarrow>
   execute_tool_call ag rt st tool_name arguments w
     = (RaisesAgent (unknown_tool_error rt (toolbox ag) tool_name), arguments, w)"
  by (simp add: execute_tool_call_def)

lemma execute_str:
  "map_of (toolbox ag) n = Some tool \<Longrightarrow>
   execute_tool_call ag rt st (VStr n) (VStr a) w
     = (case forward tool (Positional (VStr a)) w of
          (Inr obs, w') \<Rightarrow> (Returns obs, VStr a, w')
        | (Inl e, w') \<Rightarrow> (RaisesAgent (tool_execution_error tool e), VStr a, w'))"
  by (simp add: execute_tool_call_def toolbox_lookup_def as_str_def)

lemma execute_dict:
  "map_of (toolbox ag) n = Some tool \<Longrightarrow>
   execute_tool_call ag rt st (VStr n) (VDict items) w
     = (case forward tool (Keywords (substitute_state st items)) w of
          (Inr obs, w') \<Rightarrow> (Returns obs, VDict (substitute_state st items), w')
        | (Inl e, w') \<Rightarrow>
            (RaisesAgent (tool_execution_error tool e), VDict (substitute_state st items), w'))"
  by (simp add: execute_tool_call_def toolbox_lookup_def as_str_def Let_def)

text \<open>
  Claim C4. When the tool name is no key of the toolbox, \<open>execute_tool_call\<close> raises an
  \<open>AgentExecutionError\<close> whose message holds the list of the names of the toolbox, and no
  tool is called. When the tool exists: with a string as arguments the tool is called
  with that one positional value; with a mapping it is called with the keywords of the
  mapping, in which every value that is a string and a key of the State is replaced by
  the value stored under it, and every other value is kept; the call returns what the tool
  returns, and an exception of the tool becomes an \<open>AgentExecutionError\<close> whose message
  holds the message of the exception and the description of the tool.
\<close>

theorem execute_tool_call_spec:
  "(map_of (toolbox ag) missing = None
      \<longrightarrow> execute_tool_call ag rt st (VStr missing) arguments w
          = (RaisesAgent
               (AgentExecutionError
                  (''Error: unknown tool '' @ missing @ '', should be instead one of ''
                   @ py_repr rt (VList (map VStr (map fst (toolbox ag)))) @ ''.'')),
             arguments, w))
   \<and> (map_of (toolbox ag) n = Some tool
      \<longrightarrow> execute_tool_call ag rt st (VStr n) (VStr a) w
          = (case forward tool (Positional (VStr a)) w of
               (Inr obs, w') \<Rightarrow> (Returns obs, VStr a, w')
             | (Inl e, w') \<Rightarrow>
                 (RaisesAgent
                    (AgentExecutionError
                       (''Error in tool call execution: '' @ e @ nl
                        @ ''You should only use this tool with a correct input.'' @ nl
                        @ ''As a reminder, this tool'' @ sq @ ''s description is the following:''
                        @ nl @ describe tool None)),
                  VStr a, w')))
   \<and> (map_of (toolbox ag) n = Some tool
      \<longrightarrow> execute_tool_call ag rt st (VStr n) (VDict items) w
          = (case forward tool (Keywords (substitute_state st items)) w of
               (Inr obs, w') \<Rightarrow> (Returns obs, VDict (substitute_state st items), w')
             | (Inl e, w') \<Rightarrow>
                 (RaisesAgent
                    (AgentExecutionError
                       (''Error in tool call execution: '' @ e @ nl
                        @ ''You should only use this tool with a correct input.'' @ nl
                        @ ''As a reminder, this tool'' @ sq @ ''s description is the following:''
                        @ nl @ describe tool None)),
                  VDict (substitute_state st items), w')))
   \<and> map fst (substitute_state st items) = map fst items
   \<and> ((k, VStr x) \<in> set items \<and> map_of st x = Some stored
      \<longrightarrow> (k, stored) \<in> set (substitute_state st items))
   \<and> ((k, v) \<in> set items \<and> (as_str v = None \<or> (\<exists>y. as_str v = Some y \<and> map_of st y = None))
      \<longrightarrow> (k, v) \<in> set (substitute_state st items))"
proof (intro conjI impI)
  assume m: "map_of (toolbox ag) missing = None"
  show "execute_tool_call ag rt st (VStr missing) arguments w
      = (RaisesAgent
           (AgentExecutionError
              (''Error: unknown tool '' @ missing @ '', should be instead one of ''
               @ py_repr rt (VList (map VStr (map fst (toolbox ag)))) @ ''.'')),
         arguments, w)"
    using m execute_unknown[of ag "VStr missing" rt st arguments w]
    by (simp add: toolbox_lookup_def unknown_tool_error_def py_str_def)
next
  assume "map_of (toolbox ag) n = Some tool"
  then show "execute_tool_call ag rt st (VStr n) (VStr a) w
      = (case forward tool (Positional (VStr a)) w of
           (Inr obs, w') \<Rightarrow> (Returns obs, VStr a, w')
         | (Inl e, w') \<Rightarrow>
             (RaisesAgent
                (AgentExecutionError
                   (''Error in tool call execution: '' @ e @ nl
                    @ ''You should only use this tool with a correct input.'' @ nl
                    @ ''As a reminder, this tool'' @ sq @ ''s description is the following:''
                    @ nl @ describe tool None)),
              VStr a, w'))"
    by (simp add: execute_str tool_execution_error_def split: prod.splits sum.splits)
next
  assume "map_of (toolbox ag) n = Some tool"
  then show "execute_tool_call ag rt st (VStr n) (VDict items) w
      = (case forward tool (Keywords (substitute_state st items)) w of
           (Inr obs, w') \<Rightarrow> (Returns obs, VDict (substitute_state st items), w')
         | (Inl e, w') \<Rightarrow>
             (RaisesAgent
                (AgentExecutionError
                   (''Error in tool call execution: '' @ e @ nl
                    @ ''You should only use this tool with a correct input.'' @ nl
                    @ ''As a reminder, this tool'' @ sq @ ''s description is the following:''
                    @ nl @ describe tool None)),
              VDict (substitute_state st items), w'))"
    by (simp add: execute_dict tool_execution_error_def split: prod.splits sum.splits)
next
  show "map fst (substitute_state st items) = map fst items"
    by (rule substitute_state_keys)
next
  assume "(k, VStr x) \<in> set items \<and> map_of st x = Some stored"
  then show "(k, stored) \<in> set (substitute_state st items)"
    using substitute_state_stored[of k "VStr x" items x st stored] by (simp add: as_str_def)
next
  assume "(k, v) \<in> set items
    \<and> (as_str v = None \<or> (\<exists>y. as_str v = Some y \<and> map_of st y = None))"
  then show "(k, v) \<in> set (substitute_state st items)"
    using substitute_state_kept[of k v items st] by blast
qed

theorem execute_tool_call_spec_witness:
  "map_of (toolbox (example_agent ''ok'' 1 None)) ''search'' = None
   \<and> execute_tool_call (example_agent ''ok'' 1 None) example_rt [(''image.png'', VAgentImage 7)]
        (VStr ''search'') (VStr ''q'') 0
       = (RaisesAgent
            (AgentExecutionError
               (''Error: unknown tool search, should be instead one of ['' @ sq @ ''echo'' @ sq
                @ '', '' @ sq @ ''final_answer'' @ sq @ ''].'')),
          VStr ''q'', 0)
   \<and> map_of (toolbox (example_agent ''ok'' 1 None)) ''echo'' = Some echo_tool
   \<and> execute_tool_call (example_agent ''ok'' 1 None) example_rt [(''image.png'', VAgentImage 7)]
        (VStr ''echo'') (VStr ''hello'') 0
       = (Returns (VStr ''hello''), VStr ''hello'', 1)
   \<and> execute_tool_call (example_agent ''ok'' 1 None) example_rt [(''image.png'', VAgentImage 7)]
        (VStr ''echo'') (VDict [(''x'', VStr ''image.png'')]) 0
       = (Returns (VAgentImage 7), VDict [(''x'', VAgentImage 7)], 1)
   \<and> (''x'', VStr ''image.png'') \<in> set [(''x'', VStr ''image.png'')]
   \<and> map_of [(''image.png'', VAgentImage 7)] ''image.png'' = Some (VAgentImage 7)
   \<and> (''x'', VAgentImage 7)
       \<in> set (substitute_state [(''image.png'', VAgentImage 7)] [(''x'', VStr ''image.png'')])"
  using execute_tool_call_spec[of "example_agent ''ok'' 1 None" "''search''" example_rt
      "[(''image.png'', VAgentImage 7)]" "VStr ''q''" 0 "''echo''" echo_tool "''hello''"
      "[(''x'', VStr ''image.png'')]" "''x''" "''image.png''" "VAgentImage 7" "VInt 0"]
  by (simp add: example_agent_def echo_tool_def example_rt_def example_repr_def
      substitute_state_def as_str_def)


section \<open>Properties of the step\<close>

lemma json_step_body_final_answer:
  assumes "llm_engine ag memory [''<end_action>'', ''Observation:''] w = (Inr reply, w1)"
    and "extract_action reply ''Action:'' = Inr (r, action)"
    and "tool_parser ag action = Inr (tool_name, arguments)"
    and "as_str tool_name = Some ''final_answer''"
  shows "json_step_body ag rt memory st w =
     (Returns (RetEntry
        (empty_entry\<lparr>agent_memory := Some memory, llm_output := Some reply,
                      rationale := Some r, tool_call := Some (tool_name, arguments),
                      final_answer := Some (final_answer_value st arguments)\<rparr>)),
      empty_entry\<lparr>agent_memory := Some memory, llm_output := Some reply,
                   rationale := Some r, tool_call := Some (tool_name, arguments),
                   final_answer := Some (final_answer_value st arguments)\<rparr>,
      st, w1)"
  using assms by (simp add: json_step_body_def Let_def)

lemma final_answer_value_stored:
  "map_of items ''answer'' = Some (VStr a) \<Longrightarrow> map_of st a = Some stored \<Longrightarrow>
   final_answer_value st (VDict items) = stored"
  by (simp add: final_answer_value_def as_str_def)

lemma final_answer_value_no_answer:
  "map_of items ''answer'' = None \<Longrightarrow> final_answer_value st (VDict items) = VDict items"
  by (simp add: final_answer_value_def)

lemma final_answer_value_no_dict:
  "(\<And>items. arguments \<noteq> VDict items) \<Longrightarrow> final_answer_value st arguments = arguments"
  by (cases arguments) (auto simp: final_answer_value_def)

text \<open>
  Claim C10. In a step whose parsed action names \<open>final_answer\<close>: the step returns its
  entry, appended to the log, whose \<open>final_answer\<close> is the value of
  \<open>final_answer_value\<close> and which has no observation and no error; the State is
  unchanged, and the outside world is the one that the call of the engine left, whatever
  the toolbox holds: no tool is called. The recorded value is the value that the State
  stores under the answer when the arguments are a mapping whose key \<open>answer\<close> holds a
  string that is a key of the State; it is the arguments themselves when they are a
  mapping without the key \<open>answer\<close>, or no mapping.
\<close>

theorem final_answer_recorded:
  assumes "write_inner_memory_from_logs rt False False (logs s) = Inr memory"
    and "llm_engine ag memory [''<end_action>'', ''Observation:''] (world s) = (Inr reply, w1)"
    and "extract_action reply ''Action:'' = Inr (r, action)"
    and "tool_parser ag action = Inr (VStr ''final_answer'', arguments)"
  shows "json_step (ag\<lparr>toolbox := tools\<rparr>) rt s =
       (Returns (RetEntry
          (empty_entry\<lparr>agent_memory := Some memory, llm_output := Some reply,
                        rationale := Some r,
                        tool_call := Some (VStr ''final_answer'', arguments),
                        final_answer := Some (final_answer_value (state s) arguments)\<rparr>)),
        \<lparr>logs = logs s @
           [empty_entry\<lparr>agent_memory := Some memory, llm_output := Some reply,
                         rationale := Some r,
                         tool_call := Some (VStr ''final_answer'', arguments),
                         final_answer := Some (final_answer_value (state s) arguments)\<rparr>],
         state = state s, world = w1\<rparr>)
    \<and> (arguments = VDict items \<and> map_of items ''answer'' = Some (VStr a)
          \<and> map_of (state s) a = Some stored
        \<longrightarrow> final_answer_value (state s) arguments = stored)
    \<and> (arguments = VDict items \<and> map_of items ''answer'' = None
        \<longrightarrow> final_answer_value (state s) arguments = arguments)
    \<and> ((\<forall>d. arguments \<noteq> VDict d) \<longrightarrow> final_answer_value (state s) arguments = arguments)"
proof (intro conjI impI)
  show "json_step (ag\<lparr>toolbox := tools\<rparr>) rt s =
       (Returns (RetEntry
          (empty_entry\<lparr>agent_memory := Some memory, llm_output := Some reply,
                        rationale := Some r,
                        tool_call := Some (VStr ''final_answer'', arguments),
                        final_answer := Some (final_answer_value (state s) arguments)\<rparr>)),
        \<lparr>logs = logs s @
           [empty_entry\<lparr>agent_memory := Some memory, llm_output := Some reply,
                         rationale := Some r,
                         tool_call := Some (VStr ''final_answer'', arguments),
                         final_answer := Some (final_answer_value (state s) arguments)\<rparr>],
         state = state s, world = w1\<rparr>)"
    using assms
      json_step_body_final_answer[of "ag\<lparr>toolbox := tools\<rparr>" memory "world s" reply w1 r
        action "VStr ''final_answer''" arguments rt "state s"]
    by (simp add: json_step_def as_str_def)
next
  assume "arguments = VDict items \<and> map_of items ''answer'' = Some (VStr a)
    \<and> map_of (state s) a = Some stored"
  then show "final_answer_value (state s) arguments = stored"
    by (simp add: final_answer_value_stored)
next
  assume "arguments = VDict items \<and> map_of items ''answer'' = None"
  then show "final_answer_value (state s) arguments = arguments"
    by (simp add: final_answer_value_no_answer)
next
  assume "\<forall>d. arguments \<noteq> VDict d"
  then show "final_answer_value (state s) arguments = arguments"
    by (simp add: final_answer_value_no_dict)
qed

theorem final_answer_recorded_witness:
  "write_inner_memory_from_logs example_rt False False (logs final_answer_state)
     = Inr [\<lparr>role = SYSTEM, content = ''You are an agent.''\<rparr>,
            \<lparr>role = USER, content = ''Task: What is 2+2?''\<rparr>]
   \<and> llm_engine (example_agent final_reply 1 None)
        [\<lparr>role = SYSTEM, content = ''You are an agent.''\<rparr>,
         \<lparr>role = USER, content = ''Task: What is 2+2?''\<rparr>]
        [''<end_action>'', ''Observation:''] (world final_answer_state)
     = (Inr final_reply, 1)
   \<and> extract_action final_reply ''Action:''
     = Inr (''Thought: done'' @ nl, nl @ final_answer_example)
   \<and> tool_parser (example_agent final_reply 1 None) (nl @ final_answer_example)
     = Inr (VStr ''final_answer'', VDict [(''answer'', VStr ''image.png'')])
   \<and> map_of [(''answer'', VStr ''image.png'')] ''answer'' = Some (VStr ''image.png'')
   \<and> map_of (state final_answer_state) ''image.png'' = Some (VAgentImage 7)
   \<and> final_answer (last (logs (snd
         (json_step (example_agent final_reply 1 None) example_rt final_answer_state))))
     = Some (VAgentImage 7)
   \<and> world (snd (json_step (example_agent final_reply 1 None) example_rt final_answer_state))
     = 1"
proof -
  have m: "write_inner_memory_from_logs example_rt False False (logs final_answer_state)
      = Inr [\<lparr>role = SYSTEM, content = ''You are an agent.''\<rparr>,
             \<lparr>role = USER, content = ''Task: What is 2+2?''\<rparr>]"
    by (simp add: write_inner_memory_from_logs_def final_answer_state_def entry0_example_def
        empty_entry_def)
  have l: "llm_engine (example_agent final_reply 1 None)
        [\<lparr>role = SYSTEM, content = ''You are an agent.''\<rparr>,
         \<lparr>role = USER, content = ''Task: What is 2+2?''\<rparr>]
        [''<end_action>'', ''Observation:''] (world final_answer_state)
      = (Inr final_reply, 1)"
    by (simp add: example_agent_def final_answer_state_def)
  have x: "extract_action final_reply ''Action:''
      = Inr (''Thought: done'' @ nl, nl @ final_answer_example)"
    by (simp add: extract_action_def final_reply_def final_answer_example_def nl_def
        py_split_def)
  have p: "tool_parser (example_agent final_reply 1 None) (nl @ final_answer_example)
      = Inr (VStr ''final_answer'', VDict [(''answer'', VStr ''image.png'')])"
    by (simp add: example_agent_def final_answer_example_def nl_def parse_json_tool_call_def
        py_replace_def backslash_def parse_json_blob_def py_find_def py_slice_def
        slice_bound_def example_rt_def example_json_loads_def)
  show ?thesis
    using final_answer_recorded[OF m l x p, of "toolbox (example_agent final_reply 1 None)"
        "[(''answer'', VStr ''image.png'')]" "''image.png''" "VAgentImage 7"]
      m l x p
    by (simp add: final_answer_state_def)
qed


section \<open>Properties of the run loop\<close>

lemma entry0_ok_append: "entry0_ok lgs \<Longrightarrow> entry0_ok (lgs @ xs)"
  by (cases lgs) (auto simp: entry0_ok_def)

lemma entry0_ok_memory:
  "entry0_ok lgs \<Longrightarrow> \<exists>memory. write_inner_memory_from_logs rt summary_mode is_mistral lgs = Inr memory"
  by (cases lgs) (auto simp: entry0_ok_def write_inner_memory_from_logs_def Let_def)

lemma set_last_error_append:
  "set_last_error e (lgs @ [entry]) = Inr (lgs @ [entry\<lparr>error := Some e\<rparr>])"
  by (simp add: set_last_error_def)

lemma planning_due_none:
  "planning_interval ag = None \<Longrightarrow> planning_due ag rt pp tsk is_mistral i s = (None, s)"
  by (simp add: planning_due_def)

lemma direct_iteration_no_answer:
  assumes c: "step_gives_no_answer triple_without_answer step"
    and p: "planning_interval ag = None"
    and ok: "entry0_ok (logs s)" and a: "answer vars = VNone"
  shows "\<exists>vars1 s1 entry.
      direct_iteration ag rt pp step tsk is_mistral vars s = (Inr vars1, s1)
      \<and> answer vars1 = VNone \<and> iteration vars1 = iteration vars + 1
      \<and> logs s1 = logs s @ [entry]"
proof -
  obtain out s2 where st: "step s = (out, s2)" by (cases "step s")
  from c ok st obtain entry where e: "logs s2 = logs s @ [entry]"
    and sh: "case out of RaisesAgent e \<Rightarrow> True | Returns v \<Rightarrow> triple_without_answer v
                | Raises exn \<Rightarrow> False"
    unfolding step_gives_no_answer_def by fastforce
  show ?thesis
  proof (cases out)
    case (Returns v)
    with sh obtain le ob sm where v: "v = RetTriple le ob sm"
      and f: "final_answer le = None \<or> final_answer le = Some VNone"
      by (cases v) (auto simp: triple_without_answer_def)
    from f a have "read_final_answer (StepEntry le) (answer vars) = Inr VNone"
      by (auto simp: read_final_answer_def)
    with st Returns v e show ?thesis
      by (simp add: direct_iteration_def planning_due_none[OF p] unpack3_def)
  next
    case (RaisesAgent err)
    with st e a show ?thesis
      by (simp add: direct_iteration_def planning_due_none[OF p] set_last_error_append)
  next
    case (Raises exn)
    with sh show ?thesis by simp
  qed
qed

lemma direct_loop_exhausts:
  assumes c: "step_gives_no_answer triple_without_answer step"
    and p: "planning_interval ag = None"
  shows "entry0_ok (logs s) \<Longrightarrow> answer vars = VNone \<Longrightarrow> iteration vars \<le> max_iterations ag \<Longrightarrow>
     \<exists>vars' s' regular.
        direct_loop ag rt pp step tsk is_mistral vars s = (Inr vars', s')
        \<and> answer vars' = VNone \<and> iteration vars' = max_iterations ag
        \<and> logs s' = logs s @ regular
        \<and> length regular = nat (max_iterations ag - iteration vars)"
proof (induction "nat (max_iterations ag - iteration vars)" arbitrary: vars s)
  case 0
  then have "iteration vars = max_iterations ag" by simp
  then show ?case using 0 by (simp add: direct_loop.simps)
next
  case (Suc n)
  then have lt: "iteration vars < max_iterations ag" by linarith
  from direct_iteration_no_answer[OF c p Suc.prems(1,2), of rt pp tsk is_mistral]
  obtain vars1 s1 entry where
    it: "direct_iteration ag rt pp step tsk is_mistral vars s = (Inr vars1, s1)"
    and a1: "answer vars1 = VNone" and i1: "iteration vars1 = iteration vars + 1"
    and l1: "logs s1 = logs s @ [entry]" by blast
  have n: "n = nat (max_iterations ag - iteration vars1)" using Suc.hyps(2) i1 by linarith
  have ok1: "entry0_ok (logs s1)" using Suc.prems(1) l1 by (simp add: entry0_ok_append)
  have le1: "iteration vars1 \<le> max_iterations ag" using lt i1 by simp
  from Suc.hyps(1)[OF n ok1 a1 le1]
  obtain vars' s' regular where
    r: "direct_loop ag rt pp step tsk is_mistral vars1 s1 = (Inr vars', s')"
      "answer vars' = VNone" "iteration vars' = max_iterations ag"
      "logs s' = logs s1 @ regular"
      "length regular = nat (max_iterations ag - iteration vars1)" by blast
  have "direct_loop ag rt pp step tsk is_mistral vars s = (Inr vars', s')"
    using lt Suc.prems(2) it r(1) by (subst direct_loop.simps) simp
  moreover have "logs s' = logs s @ (entry # regular)" using r(4) l1 by simp
  moreover have "length (entry # regular) = nat (max_iterations ag - iteration vars)"
    using r(5) i1 lt by simp
  ultimately show ?case using r(2,3) by blast
qed


lemma exhausted_fallback:
  assumes l: "direct_loop ag rt pp step tsk is_mistral initial_vars s = (Inr vars, s1)"
    and a: "answer vars = VNone" and i: "iteration vars = max_iterations ag"
    and m: "write_inner_memory_from_logs rt False is_mistral (logs s1 @ [max_iterations_entry])
              = Inr memory"
    and e: "llm_engine ag (final_answer_prompt tsk is_mistral memory) [] (world s1) = (r, w)"
  shows "direct_run ag rt pp step tsk is_mistral s =
     (Inr (VStr (recovered_answer r), step_observation_logs vars, sm_logs vars),
      \<lparr>logs = logs s1 @ [max_iterations_entry\<lparr>final_answer := Some (VStr (recovered_answer r))\<rparr>],
       state = state s1, world = w\<rparr>)"
  using assms by (simp add: direct_run_def provide_final_answer_def)

lemma start_run_reset:
  assumes "start_run ag rt tsk True kwargs s = Inr s0"
  shows "\<exists>sp t. s0 = \<lparr>logs = [empty_entry\<lparr>system_prompt := Some sp, task := Some t\<rparr>],
                         state = kwargs, world = world s\<rparr>"
  using assms
  by (cases s)
    (auto simp: start_run_def initialize_for_run_def Let_def split: sum.splits option.splits)

lemma stream_iteration_no_answer:
  assumes c: "step_gives_no_answer pair_without_answer step"
    and ok: "entry0_ok (logs s)" and a: "answer vars = VNone"
  shows "\<exists>vars1 s1 entry.
      stream_iteration step vars s = (Inr vars1, [entry], s1)
      \<and> answer vars1 = VNone \<and> iteration vars1 = iteration vars + 1
      \<and> logs s1 = logs s @ [entry]"
proof -
  obtain out s2 where st: "step s = (out, s2)" by (cases "step s")
  from c ok st obtain entry where e: "logs s2 = logs s @ [entry]"
    and sh: "case out of RaisesAgent e \<Rightarrow> True | Returns v \<Rightarrow> pair_without_answer v
                | Raises exn \<Rightarrow> False"
    unfolding step_gives_no_answer_def by fastforce
  show ?thesis
  proof (cases out)
    case (Returns v)
    with sh obtain le ob where v: "v = RetPair le ob"
      and f: "final_answer le = None \<or> final_answer le = Some VNone"
      by (cases v) (auto simp: pair_without_answer_def)
    from f a have "read_final_answer (StepEntry le) (answer vars) = Inr VNone"
      by (auto simp: read_final_answer_def)
    with st Returns v e show ?thesis
      by (simp add: stream_iteration_def unpack_step2_def)
  next
    case (RaisesAgent err)
    with st e a show ?thesis
      by (simp add: stream_iteration_def set_last_error_append)
  next
    case (Raises exn)
    with sh show ?thesis by simp
  qed
qed

lemma stream_loop_exhausts:
  assumes c: "step_gives_no_answer pair_without_answer step"
  shows "entry0_ok (logs s) \<Longrightarrow> answer vars = VNone \<Longrightarrow> iteration vars \<le> max_iterations ag \<Longrightarrow>
     \<exists>vars' s' regular.
        stream_loop ag step vars yielded s = (Inr vars', yielded @ regular, s')
        \<and> answer vars' = VNone \<and> iteration vars' = max_iterations ag
        \<and> logs s' = logs s @ regular
        \<and> length regular = nat (max_iterations ag - iteration vars)"
proof (induction "nat (max_iterations ag - iteration vars)" arbitrary: vars s yielded)
  case 0
  then have "iteration vars = max_iterations ag" by simp
  then show ?case using 0 by (simp add: stream_loop.simps)
next
  case (Suc n)
  then have lt: "iteration vars < max_iterations ag" by linarith
  from stream_iteration_no_answer[OF c Suc.prems(1,2)]
  obtain vars1 s1 entry where
    it: "stream_iteration step vars s = (Inr vars1, [entry], s1)"
    and a1: "answer vars1 = VNone" and i1: "iteration vars1 = iteration vars + 1"
    and l1: "logs s1 = logs s @ [entry]" by blast
  have n: "n = nat (max_iterations ag - iteration vars1)" using Suc.hyps(2) i1 by linarith
  have ok1: "entry0_ok (logs s1)" using Suc.prems(1) l1 by (simp add: entry0_ok_append)
  have le1: "iteration vars1 \<le> max_iterations ag" using lt i1 by simp
  from Suc.hyps(1)[OF n ok1 a1 le1, of "yielded @ [entry]"]
  obtain vars' s' regular where
    r: "stream_loop ag step vars1 (yielded @ [entry]) s1
          = (Inr vars', (yielded @ [entry]) @ regular, s')"
      "answer vars' = VNone" "iteration vars' = max_iterations ag"
      "logs s' = logs s1 @ regular"
      "length regular = nat (max_iterations ag - iteration vars1)" by blast
  have "stream_loop ag step vars yielded s = (Inr vars', yielded @ (entry # regular), s')"
    using lt Suc.prems(2) it r(1) by (subst stream_loop.simps) simp
  moreover have "logs s' = logs s @ (entry # regular)" using r(4) l1 by simp
  moreover have "length (entry # regular) = nat (max_iterations ag - iteration vars)"
    using r(5) i1 lt by simp
  ultimately show ?case using r(2,3) by blast
qed

lemma stream_exhausted_fallback:
  assumes l: "stream_loop ag step initial_vars [] s = (Inr vars, yielded, s1)"
    and a: "answer vars = VNone" and i: "iteration vars = max_iterations ag"
    and m: "write_inner_memory_from_logs rt False is_mistral (logs s1 @ [max_iterations_entry])
              = Inr memory"
    and e: "llm_engine ag (final_answer_prompt tsk is_mistral memory) [] (world s1) = (r, w)"
  shows "stream_run ag rt step tsk is_mistral s =
     (Inr (VStr (recovered_answer r), step_observation_logs vars),
      yielded @ [max_iterations_entry\<lparr>final_answer := Some (VStr (recovered_answer r))\<rparr>],
      \<lparr>logs = logs s1 @ [max_iterations_entry\<lparr>final_answer := Some (VStr (recovered_answer r))\<rparr>],
       state = state s1, world = w\<rparr>)"
  using assms by (simp add: stream_run_def provide_final_answer_def)


lemma json_step_appends:
  assumes "write_inner_memory_from_logs rt False False (logs s) = Inr memory"
  shows "\<exists>entry. logs (snd (json_step ag rt s)) = logs s @ [entry]"
  using assms by (simp add: json_step_def split: prod.splits)

lemma json_step_body_parser_fails:
  assumes "\<And>action. \<exists>e. tool_parser ag action = Inl e"
  shows "\<exists>err. fst (json_step_body ag rt memory st w) = RaisesAgent err"
proof -
  obtain r w1 where l: "llm_engine ag memory [''<end_action>'', ''Observation:''] w = (r, w1)"
    by (cases "llm_engine ag memory [''<end_action>'', ''Observation:''] w")
  show ?thesis
  proof (cases r)
    case (Inl e)
    with l show ?thesis by (simp add: json_step_body_def)
  next
    case (Inr reply)
    show ?thesis
    proof (cases "extract_action reply ''Action:''")
      case (Inl err)
      with l Inr show ?thesis by (simp add: json_step_body_def)
    next
      case (Inr ra)
      obtain rat action where ra: "ra = (rat, action)" by (cases ra)
      from assms obtain e where "tool_parser ag action = Inl e" by blast
      with l \<open>r = Inr reply\<close> Inr ra show ?thesis by (simp add: json_step_body_def)
    qed
  qed
qed

lemma json_step_parser_fails:
  assumes "\<And>action. \<exists>e. tool_parser ag action = Inl e"
  shows "step_gives_no_answer without_answer (json_step ag rt)"
  unfolding step_gives_no_answer_def
proof (intro allI impI)
  fix s :: "'a agent_state"
  assume "entry0_ok (logs s)"
  then obtain memory where m: "write_inner_memory_from_logs rt False False (logs s) = Inr memory"
    using entry0_ok_memory by blast
  from json_step_body_parser_fails[OF assms, of rt memory "state s" "world s"]
  obtain err where "fst (json_step_body ag rt memory (state s) (world s)) = RaisesAgent err"
    by blast
  then have "fst (json_step ag rt s) = RaisesAgent err"
    using m by (auto simp: json_step_def split: prod.splits)
  then show "(\<exists>entry. logs (snd (json_step ag rt s)) = logs s @ [entry])
      \<and> (case fst (json_step ag rt s) of
            Returns v \<Rightarrow> without_answer v
          | RaisesAgent e \<Rightarrow> True
          | Raises exn \<Rightarrow> False)"
    using json_step_appends[OF m, of ag] by simp
qed

text \<open>
  The run that uses up its budget, for a step method whose value the loop can unpack. A
  run is started with \<open>reset\<close>, has no planning interval and a budget of at least one
  iteration, and every step of it appends its entry and either raises an \<open>AgentError\<close>
  or returns the tuple that the loop unpacks, without a final answer. Then the loop ends
  after the budget, with one entry per iteration after entry 0; the run appends the entry
  of the exhaustion and calls the engine once more, with the prompt of the recovery, in
  the world that the loop left; the text recovered from that call (the reply, when the
  call returns one) is the final answer of the run and of the last entry, and the world
  after the run is the world after that call. The log has the budget plus two entries.
  The same holds for the streaming run, which yields the entries of the iterations and
  then the last entry. The entry of the exhaustion holds the error
  \<open>AgentMaxIterationsError\<close> with the message \<open>Reached max iterations.\<close>
\<close>

theorem run_exhausts_budget:
  assumes "1 \<le> max_iterations ag" and "planning_interval ag = None"
    and "start_run ag rt tsk True kwargs s = Inr s0"
  shows "(step_gives_no_answer triple_without_answer step \<longrightarrow>
           (\<exists>entry0 regular st w_loop vars memory r w.
              direct_loop ag rt pp step tsk is_mistral initial_vars s0
                = (Inr vars, \<lparr>logs = entry0 # regular, state = st, world = w_loop\<rparr>)
              \<and> length regular = nat (max_iterations ag)
              \<and> write_inner_memory_from_logs rt False is_mistral
                   (entry0 # regular @ [max_iterations_entry]) = Inr memory
              \<and> llm_engine ag (final_answer_prompt tsk is_mistral memory) [] w_loop = (r, w)
              \<and> run ag rt pp step tsk True is_mistral kwargs s
                = (Returns (VStr (recovered_answer r), step_observation_logs vars, sm_logs vars),
                   \<lparr>logs = entry0 # regular @
                            [max_iterations_entry
                               \<lparr>final_answer := Some (VStr (recovered_answer r))\<rparr>],
                    state = st, world = w\<rparr>)
              \<and> length (logs (snd (run ag rt pp step tsk True is_mistral kwargs s)))
                = nat (max_iterations ag) + 2))
    \<and> (step_gives_no_answer pair_without_answer step \<longrightarrow>
           (\<exists>entry0 regular st w_loop vars memory r w.
              stream_loop ag step initial_vars [] s0
                = (Inr vars, regular, \<lparr>logs = entry0 # regular, state = st, world = w_loop\<rparr>)
              \<and> length regular = nat (max_iterations ag)
              \<and> write_inner_memory_from_logs rt False is_mistral
                   (entry0 # regular @ [max_iterations_entry]) = Inr memory
              \<and> llm_engine ag (final_answer_prompt tsk is_mistral memory) [] w_loop = (r, w)
              \<and> run_stream ag rt step tsk True is_mistral kwargs s
                = (Returns (VStr (recovered_answer r), step_observation_logs vars),
                   regular @ [max_iterations_entry
                                \<lparr>final_answer := Some (VStr (recovered_answer r))\<rparr>],
                   \<lparr>logs = entry0 # regular @
                            [max_iterations_entry
                               \<lparr>final_answer := Some (VStr (recovered_answer r))\<rparr>],
                    state = st, world = w\<rparr>)))
    \<and> recovered_answer (Inr reply) = reply
    \<and> max_iterations_entry
        = empty_entry\<lparr>error := Some (AgentMaxIterationsError ''Reached max iterations.'')\<rparr>"
proof (intro conjI impI)
  from start_run_reset[OF assms(3)] obtain sp t where
    s0: "s0 = \<lparr>logs = [empty_entry\<lparr>system_prompt := Some sp, task := Some t\<rparr>],
               state = kwargs, world = world s\<rparr>" by blast
  let ?e0 = "empty_entry\<lparr>system_prompt := Some sp, task := Some t\<rparr>"
  have ok: "entry0_ok (logs s0)" by (simp add: s0 entry0_ok_def)
  have a0: "answer initial_vars = VNone" and i0: "iteration initial_vars \<le> max_iterations ag"
    using assms(1) by (simp_all add: initial_vars_def)
  have n: "nat (max_iterations ag - iteration initial_vars) = nat (max_iterations ag)"
    by (simp add: initial_vars_def)
  {
    assume c: "step_gives_no_answer triple_without_answer step"
    from direct_loop_exhausts[OF c assms(2) ok a0 i0, of rt pp tsk is_mistral]
    obtain vars s1 regular where
      l: "direct_loop ag rt pp step tsk is_mistral initial_vars s0 = (Inr vars, s1)"
      and a: "answer vars = VNone" and i: "iteration vars = max_iterations ag"
      and lg: "logs s1 = logs s0 @ regular"
      and len: "length regular = nat (max_iterations ag)"
      using n by auto
    have s1: "s1 = \<lparr>logs = ?e0 # regular, state = state s1, world = world s1\<rparr>"
      using lg s0 by (cases s1) simp
    have "entry0_ok (logs s1 @ [max_iterations_entry])"
      using lg s0 by (simp add: entry0_ok_def)
    then obtain memory where
      m: "write_inner_memory_from_logs rt False is_mistral (logs s1 @ [max_iterations_entry])
            = Inr memory"
      using entry0_ok_memory by blast
    obtain r w where
      e: "llm_engine ag (final_answer_prompt tsk is_mistral memory) [] (world s1) = (r, w)"
      by (cases "llm_engine ag (final_answer_prompt tsk is_mistral memory) [] (world s1)")
    have d: "direct_run ag rt pp step tsk is_mistral s0 =
        (Inr (VStr (recovered_answer r), step_observation_logs vars, sm_logs vars),
         \<lparr>logs = logs s1 @
              [max_iterations_entry\<lparr>final_answer := Some (VStr (recovered_answer r))\<rparr>],
          state = state s1, world = w\<rparr>)"
      using l a i m e by (rule exhausted_fallback)
    have r: "run ag rt pp step tsk True is_mistral kwargs s =
        (Returns (VStr (recovered_answer r), step_observation_logs vars, sm_logs vars),
         \<lparr>logs = ?e0 # regular @
              [max_iterations_entry\<lparr>final_answer := Some (VStr (recovered_answer r))\<rparr>],
          state = state s1, world = w\<rparr>)"
      using d assms(3) lg s0 by (simp add: run_def)
    have "direct_loop ag rt pp step tsk is_mistral initial_vars s0
        = (Inr vars, \<lparr>logs = ?e0 # regular, state = state s1, world = world s1\<rparr>)"
      using l s1 by simp
    moreover have "write_inner_memory_from_logs rt False is_mistral
        (?e0 # regular @ [max_iterations_entry]) = Inr memory"
      using m lg s0 by simp
    moreover have "length (logs (snd (run ag rt pp step tsk True is_mistral kwargs s)))
        = nat (max_iterations ag) + 2"
      using r len by simp
    ultimately show "\<exists>entry0 regular st w_loop vars memory r w.
        direct_loop ag rt pp step tsk is_mistral initial_vars s0
          = (Inr vars, \<lparr>logs = entry0 # regular, state = st, world = w_loop\<rparr>)
        \<and> length regular = nat (max_iterations ag)
        \<and> write_inner_memory_from_logs rt False is_mistral
             (entry0 # regular @ [max_iterations_entry]) = Inr memory
        \<and> llm_engine ag (final_answer_prompt tsk is_mistral memory) [] w_loop = (r, w)
        \<and> run ag rt pp step tsk True is_mistral kwargs s
          = (Returns (VStr (recovered_answer r), step_observation_logs vars, sm_logs vars),
             \<lparr>logs = entry0 # regular @
                      [max_iterations_entry
                         \<lparr>final_answer := Some (VStr (recovered_answer r))\<rparr>],
              state = st, world = w\<rparr>)
        \<and> length (logs (snd (run ag rt pp step tsk True is_mistral kwargs s)))
          = nat (max_iterations ag) + 2"
      using len e r by blast
  }
  {
    assume c: "step_gives_no_answer pair_without_answer step"
    from stream_loop_exhausts[OF c ok a0 i0, of "[]"]
    obtain vars s1 regular where
      l: "stream_loop ag step initial_vars [] s0 = (Inr vars, regular, s1)"
      and a: "answer vars = VNone" and i: "iteration vars = max_iterations ag"
      and lg: "logs s1 = logs s0 @ regular"
      and len: "length regular = nat (max_iterations ag)"
      using n by auto
    have s1: "s1 = \<lparr>logs = ?e0 # regular, state = state s1, world = world s1\<rparr>"
      using lg s0 by (cases s1) simp
    have "entry0_ok (logs s1 @ [max_iterations_entry])"
      using lg s0 by (simp add: entry0_ok_def)
    then obtain memory where
      m: "write_inner_memory_from_logs rt False is_mistral (logs s1 @ [max_iterations_entry])
            = Inr memory"
      using entry0_ok_memory by blast
    obtain r w where
      e: "llm_engine ag (final_answer_prompt tsk is_mistral memory) [] (world s1) = (r, w)"
      by (cases "llm_engine ag (final_answer_prompt tsk is_mistral memory) [] (world s1)")
    have d: "stream_run ag rt step tsk is_mistral s0 =
        (Inr (VStr (recovered_answer r), step_observation_logs vars),
         regular @ [max_iterations_entry\<lparr>final_answer := Some (VStr (recovered_answer r))\<rparr>],
         \<lparr>logs = logs s1 @
              [max_iterations_entry\<lparr>final_answer := Some (VStr (recovered_answer r))\<rparr>],
          state = state s1, world = w\<rparr>)"
      using l a i m e by (rule stream_exhausted_fallback)
    have r: "run_stream ag rt step tsk True is_mistral kwargs s =
        (Returns (VStr (recovered_answer r), step_observation_logs vars),
         regular @ [max_iterations_entry\<lparr>final_answer := Some (VStr (recovered_answer r))\<rparr>],
         \<lparr>logs = ?e0 # regular @
              [max_iterations_entry\<lparr>final_answer := Some (VStr (recovered_answer r))\<rparr>],
          state = state s1, world = w\<rparr>)"
      using d assms(3) lg s0 by (simp add: run_stream_def)
    have "stream_loop ag step initial_vars [] s0
        = (Inr vars, regular, \<lparr>logs = ?e0 # regular, state = state s1, world = world s1\<rparr>)"
      using l s1 by simp
    moreover have "write_inner_memory_from_logs rt False is_mistral
        (?e0 # regular @ [max_iterations_entry]) = Inr memory"
      using m lg s0 by simp
    ultimately show "\<exists>entry0 regular st w_loop vars memory r w.
        stream_loop ag step initial_vars [] s0
          = (Inr vars, regular, \<lparr>logs = entry0 # regular, state = st, world = w_loop\<rparr>)
        \<and> length regular = nat (max_iterations ag)
        \<and> write_inner_memory_from_logs rt False is_mistral
             (entry0 # regular @ [max_iterations_entry]) = Inr memory
        \<and> llm_engine ag (final_answer_prompt tsk is_mistral memory) [] w_loop = (r, w)
        \<and> run_stream ag rt step tsk True is_mistral kwargs s
          = (Returns (VStr (recovered_answer r), step_observation_logs vars),
             regular @ [max_iterations_entry
                          \<lparr>final_answer := Some (VStr (recovered_answer r))\<rparr>],
             \<lparr>logs = entry0 # regular @
                      [max_iterations_entry
                         \<lparr>final_answer := Some (VStr (recovered_answer r))\<rparr>],
              state = st, world = w\<rparr>)"
      using len e r by blast
  }
  show "recovered_answer (Inr reply) = reply" by (simp add: recovered_answer_def)
  show "max_iterations_entry
      = empty_entry\<lparr>error := Some (AgentMaxIterationsError ''Reached max iterations.'')\<rparr>"
    by (simp add: max_iterations_entry_def)
qed

theorem run_exhausts_budget_witness:
  "1 \<le> max_iterations (unparsable_agent 2)
   \<and> planning_interval (unparsable_agent 2) = None
   \<and> step_gives_no_answer triple_without_answer (json_step (unparsable_agent 2) example_rt)
   \<and> step_gives_no_answer pair_without_answer (json_step (unparsable_agent 2) example_rt)
   \<and> length (logs (snd (run (unparsable_agent 2) example_rt example_prompts
         (json_step (unparsable_agent 2) example_rt) ''What is 2+2?'' True False []
         fresh_state))) = 4
   \<and> last (logs (snd (run (unparsable_agent 2) example_rt example_prompts
         (json_step (unparsable_agent 2) example_rt) ''What is 2+2?'' True False []
         fresh_state)))
       = max_iterations_entry
           \<lparr>final_answer := Some (VStr (''Thought: hm'' @ nl @ ''Action: nothing''))\<rparr>
   \<and> length (fst (snd (run_stream (unparsable_agent 2) example_rt
         (json_step (unparsable_agent 2) example_rt) ''What is 2+2?'' True False []
         fresh_state))) = 3"
proof -
  let ?ag = "unparsable_agent 2"
  let ?step = "json_step ?ag example_rt"
  let ?run = "run ?ag example_rt example_prompts ?step ''What is 2+2?'' True False [] fresh_state"
  let ?stream = "run_stream ?ag example_rt ?step ''What is 2+2?'' True False [] fresh_state"
  have b: "1 \<le> max_iterations ?ag" and p: "planning_interval ?ag = None"
    by (simp_all add: unparsable_agent_def example_agent_def)
  have f: "\<And>action. \<exists>e. tool_parser ?ag action = Inl e"
    by (simp add: unparsable_agent_def)
  have c3: "step_gives_no_answer triple_without_answer ?step"
    using f by (rule json_step_parser_fails)
  have c2: "step_gives_no_answer pair_without_answer ?step"
    using f by (rule json_step_parser_fails)
  have "\<exists>s0. start_run ?ag example_rt ''What is 2+2?'' True [] fresh_state = Inr s0"
    by (simp add: start_run_def initialize_for_run_def unparsable_agent_def example_agent_def)
  then obtain s0 where
    st: "start_run ?ag example_rt ''What is 2+2?'' True [] fresh_state = Inr s0" by blast
  have e: "recovered_answer r = ''Thought: hm'' @ nl @ ''Action: nothing''"
    if "llm_engine ?ag prompt [] w = (r, w')" for prompt w r w'
    using that by (auto simp: unparsable_agent_def example_agent_def recovered_answer_def)
  have n: "nat (max_iterations ?ag) = 2"
    by (simp add: unparsable_agent_def example_agent_def)
  note t = run_exhausts_budget[OF b p st, of ?step example_prompts False]
  from mp[OF conjunct1[OF t] c3]
  have d: "length (logs (snd ?run)) = 4
      \<and> last (logs (snd ?run))
        = max_iterations_entry
            \<lparr>final_answer := Some (VStr (''Thought: hm'' @ nl @ ''Action: nothing''))\<rparr>"
  proof (elim exE conjE)
    fix entry0 regular stt w_loop vars memory r w
    assume len: "length regular = nat (max_iterations ?ag)"
      and eng: "llm_engine ?ag (final_answer_prompt ''What is 2+2?'' False memory) [] w_loop
          = (r, w)"
      and rn: "?run
          = (Returns (VStr (recovered_answer r), step_observation_logs vars, sm_logs vars),
             \<lparr>logs = entry0 # regular @
                  [max_iterations_entry\<lparr>final_answer := Some (VStr (recovered_answer r))\<rparr>],
              state = stt, world = w\<rparr>)"
    show ?thesis using len rn e[OF eng] n by simp
  qed
  from mp[OF conjunct1[OF conjunct2[OF t]] c2]
  have y: "length (fst (snd ?stream)) = 3"
  proof (elim exE conjE)
    fix entry0 regular stt w_loop vars memory r w
    assume len: "length regular = nat (max_iterations ?ag)"
      and rn: "?stream
          = (Returns (VStr (recovered_answer r), step_observation_logs vars),
             regular @ [max_iterations_entry\<lparr>final_answer := Some (VStr (recovered_answer r))\<rparr>],
             \<lparr>logs = entry0 # regular @
                  [max_iterations_entry\<lparr>final_answer := Some (VStr (recovered_answer r))\<rparr>],
              state = stt, world = w\<rparr>)"
    show ?thesis using len rn n by simp
  qed
  show ?thesis
    using b p c3 c2 d y by simp
qed


text \<open>
  Claim C1 fails on the code for the step of \<open>ReactJsonAgent\<close>. With a budget of two
  iterations, no planning interval and an engine that asks for the tool \<open>echo\<close>, the
  first step succeeds and gives no final answer: it returns its entry, a dictionary of
  five keys. \<open>direct_run\<close> unpacks the value of the step into three names, and
  \<open>stream_run\<close> into two, so the run ends in the first iteration with a ValueError: the
  log has two entries, not four, there is no entry of the exhaustion and no recovery call
  (the world counts two calls, of the engine and of the tool).
\<close>

theorem successful_step_run_raises:
  "max_iterations echo_agent = 2
   \<and> planning_interval echo_agent = None
   \<and> start_run echo_agent example_rt ''What is 2+2?'' True [] fresh_state
       = Inr planning_start_state
   \<and> fst (json_step echo_agent example_rt planning_start_state)
       = Returns (RetEntry
           (last (logs (snd (json_step echo_agent example_rt planning_start_state)))))
   \<and> entry_keys (last (logs (snd (json_step echo_agent example_rt planning_start_state))))
       = [''agent_memory'', ''llm_output'', ''rationale'', ''tool_call'', ''observation'']
   \<and> fst (run echo_agent example_rt example_prompts (json_step echo_agent example_rt)
        ''What is 2+2?'' True False [] fresh_state)
       = Raises (PyException ''ValueError'' ''too many values to unpack (expected 3)'')
   \<and> map entry_keys
        (logs (snd (run echo_agent example_rt example_prompts
           (json_step echo_agent example_rt) ''What is 2+2?'' True False [] fresh_state)))
       = [[''system_prompt'', ''task''],
          [''agent_memory'', ''llm_output'', ''rationale'', ''tool_call'', ''observation'']]
   \<and> world (snd (run echo_agent example_rt example_prompts
        (json_step echo_agent example_rt) ''What is 2+2?'' True False [] fresh_state)) = 2
   \<and> fst (run_stream echo_agent example_rt (json_step echo_agent example_rt)
        ''What is 2+2?'' True False [] fresh_state)
       = Raises (PyException ''ValueError'' ''too many values to unpack (expected 2)'')
   \<and> map entry_keys
        (logs (snd (snd (run_stream echo_agent example_rt (json_step echo_agent example_rt)
           ''What is 2+2?'' True False [] fresh_state))))
       = [[''system_prompt'', ''task''],
          [''agent_memory'', ''llm_output'', ''rationale'', ''tool_call'', ''observation'']]"
  by (intro conjI; code_simp)


section \<open>Properties of the recovery call\<close>

lemma failing_agent_fields:
  "llm_engine (failing_agent b) = (\<lambda>messages stop_sequences w. (Inl ''boom'', Suc w))"
  "max_iterations (failing_agent b) = b"
  "planning_interval (failing_agent b) = None"
  by (simp_all add: failing_agent_def example_agent_def)

lemma failing_start:
  "start_run (failing_agent 1) example_rt ''What is 2+2?'' True [] fresh_state
     = Inr failing_start_state"
  by (simp add: start_run_def initialize_for_run_def failing_agent_def example_agent_def
      fresh_state_def format_prompt_with_tools_def show_tool_descriptions_def py_replace_def
      echo_tool_def final_answer_tool_def nl_def failing_start_state_def)

lemma failing_loop:
  "direct_loop (failing_agent 1) example_rt example_prompts
     (json_step (failing_agent 1) example_rt) ''What is 2+2?'' False initial_vars
     failing_start_state
   = (Inr (initial_vars\<lparr>iteration := 1\<rparr>), failing_loop_state)"
  by (simp add: direct_loop.simps initial_vars_def direct_iteration_def planning_due_def
      json_step_def json_step_body_def write_inner_memory_from_logs_def empty_entry_def
      set_last_error_def failing_agent_fields Let_def failing_start_state_def
      failing_loop_state_def)

lemma failing_direct_run:
  "direct_run (failing_agent 1) example_rt example_prompts
     (json_step (failing_agent 1) example_rt) ''What is 2+2?'' False failing_start_state
   = (Inr (VStr ''Error in generating final llm output: boom.'', [], []),
      \<lparr>logs = logs failing_loop_state @
           [empty_entry\<lparr>error := Some (AgentMaxIterationsError ''Reached max iterations.''),
                        final_answer :=
                          Some (VStr ''Error in generating final llm output: boom.'')\<rparr>],
       state = [], world = 2\<rparr>)"
  unfolding direct_run_def failing_loop
  by (simp add: initial_vars_def write_inner_memory_from_logs_def empty_entry_def
      provide_final_answer_def max_iterations_entry_def recovered_answer_def
      failing_agent_fields Let_def failing_start_state_def failing_loop_state_def)

text \<open>
  Claim C7, as the code has it. When the loop of \<open>direct_run\<close> has used up the budget
  without an answer (and entry 0 is complete), the run appends the entry of the
  exhaustion and calls the engine once, in the world that the loop left, and ends in the
  world that this call left. The final answer of the run, stored in that last entry beside
  the exhaustion error, is the reply of the call, or, when the call raises an exception
  with the message \<open>e\<close>, the text \<open>Error in generating final llm output: e.\<close>: the
  run ends with a final answer in both cases.
\<close>

theorem exhaustion_recovery_call:
  assumes "direct_loop ag rt pp step tsk is_mistral initial_vars s = (Inr vars, s1)"
    and "answer vars = VNone" and "iteration vars = max_iterations ag"
    and "entry0_ok (logs s1)"
  shows "\<exists>memory r w.
      write_inner_memory_from_logs rt False is_mistral (logs s1 @ [max_iterations_entry])
        = Inr memory
      \<and> llm_engine ag (final_answer_prompt tsk is_mistral memory) [] (world s1) = (r, w)
      \<and> direct_run ag rt pp step tsk is_mistral s
        = (Inr (VStr (recovered_answer r), step_observation_logs vars, sm_logs vars),
           \<lparr>logs = logs s1 @
                [empty_entry\<lparr>error := Some (AgentMaxIterationsError ''Reached max iterations.''),
                             final_answer := Some (VStr (recovered_answer r))\<rparr>],
            state = state s1, world = w\<rparr>)
      \<and> recovered_answer r =
          (case r of
             Inr reply \<Rightarrow> reply
           | Inl e \<Rightarrow> ''Error in generating final llm output: '' @ e @ ''.'')"
proof -
  have "entry0_ok (logs s1 @ [max_iterations_entry])"
    using assms(4) by (rule entry0_ok_append)
  then obtain memory where
    m: "write_inner_memory_from_logs rt False is_mistral (logs s1 @ [max_iterations_entry])
          = Inr memory"
    using entry0_ok_memory by blast
  obtain r w where
    e: "llm_engine ag (final_answer_prompt tsk is_mistral memory) [] (world s1) = (r, w)"
    by (cases "llm_engine ag (final_answer_prompt tsk is_mistral memory) [] (world s1)")
  have "direct_run ag rt pp step tsk is_mistral s
      = (Inr (VStr (recovered_answer r), step_observation_logs vars, sm_logs vars),
         \<lparr>logs = logs s1 @
              [empty_entry\<lparr>error := Some (AgentMaxIterationsError ''Reached max iterations.''),
                           final_answer := Some (VStr (recovered_answer r))\<rparr>],
          state = state s1, world = w\<rparr>)"
    using exhausted_fallback[OF assms(1,2,3) m e] by (simp add: max_iterations_entry_def)
  moreover have "recovered_answer r =
      (case r of
         Inr reply \<Rightarrow> reply
       | Inl e \<Rightarrow> ''Error in generating final llm output: '' @ e @ ''.'')"
    by (simp add: recovered_answer_def)
  ultimately show ?thesis using m e by blast
qed

theorem exhaustion_recovery_call_witness:
  "direct_loop (failing_agent 1) example_rt example_prompts
     (json_step (failing_agent 1) example_rt) ''What is 2+2?'' False initial_vars
     failing_start_state
     = (Inr (initial_vars\<lparr>iteration := 1\<rparr>), failing_loop_state)
   \<and> answer (initial_vars\<lparr>iteration := 1\<rparr>) = VNone
   \<and> iteration (initial_vars\<lparr>iteration := 1\<rparr>) = max_iterations (failing_agent 1)
   \<and> entry0_ok (logs failing_loop_state)
   \<and> direct_run (failing_agent 1) example_rt example_prompts
        (json_step (failing_agent 1) example_rt) ''What is 2+2?'' False failing_start_state
     = (Inr (VStr ''Error in generating final llm output: boom.'', [], []),
        \<lparr>logs = logs failing_loop_state @
             [empty_entry\<lparr>error := Some (AgentMaxIterationsError ''Reached max iterations.''),
                          final_answer :=
                            Some (VStr ''Error in generating final llm output: boom.'')\<rparr>],
         state = [], world = 2\<rparr>)"
proof -
  let ?ag = "failing_agent 1"
  have h2: "answer (initial_vars\<lparr>iteration := 1\<rparr>) = VNone"
    and h3: "iteration (initial_vars\<lparr>iteration := 1\<rparr>) = max_iterations ?ag"
    by (simp_all add: initial_vars_def failing_agent_fields)
  have h4: "entry0_ok (logs failing_loop_state)"
    by (simp add: failing_loop_state_def failing_start_state_def entry0_ok_def empty_entry_def)
  from exhaustion_recovery_call[OF failing_loop h2 h3 h4]
  have d: "direct_run ?ag example_rt example_prompts (json_step ?ag example_rt)
        ''What is 2+2?'' False failing_start_state
      = (Inr (VStr ''Error in generating final llm output: boom.'', [], []),
         \<lparr>logs = logs failing_loop_state @
              [empty_entry\<lparr>error := Some (AgentMaxIterationsError ''Reached max iterations.''),
                           final_answer :=
                             Some (VStr ''Error in generating final llm output: boom.'')\<rparr>],
          state = [], world = 2\<rparr>)"
  proof (elim exE conjE)
    fix memory r w
    assume e: "llm_engine ?ag (final_answer_prompt ''What is 2+2?'' False memory) []
          (world failing_loop_state) = (r, w)"
      and d: "direct_run ?ag example_rt example_prompts (json_step ?ag example_rt)
          ''What is 2+2?'' False failing_start_state
        = (Inr (VStr (recovered_answer r),
                step_observation_logs (initial_vars\<lparr>iteration := 1\<rparr>),
                sm_logs (initial_vars\<lparr>iteration := 1\<rparr>)),
           \<lparr>logs = logs failing_loop_state @
                [empty_entry\<lparr>error := Some (AgentMaxIterationsError ''Reached max iterations.''),
                             final_answer := Some (VStr (recovered_answer r))\<rparr>],
            state = state failing_loop_state, world = w\<rparr>)"
    from e have "r = Inl ''boom''" and "w = 2"
      by (auto simp: failing_agent_fields failing_loop_state_def)
    with d show ?thesis
      by (simp add: recovered_answer_def initial_vars_def failing_loop_state_def)
  qed
  show ?thesis using failing_loop h2 h3 h4 d by simp
qed

text \<open>
  The engine raises on every call, also on the recovery call: the run returns a final
  answer, the text of the failure, and stores it in the last entry of the log.
\<close>

theorem recovery_failure_counterexample:
  "fst (run (failing_agent 1) example_rt example_prompts (json_step (failing_agent 1) example_rt)
      ''What is 2+2?'' True False [] fresh_state)
     = Returns (VStr ''Error in generating final llm output: boom.'', [], [])
   \<and> last (logs (snd (run (failing_agent 1) example_rt example_prompts
       (json_step (failing_agent 1) example_rt) ''What is 2+2?'' True False [] fresh_state)))
     = empty_entry\<lparr>error := Some (AgentMaxIterationsError ''Reached max iterations.''),
                    final_answer := Some (VStr ''Error in generating final llm output: boom.'')\<rparr>"
  unfolding run_def failing_start
  by (simp add: failing_direct_run)


section \<open>Properties of the log during a run\<close>

lemma planning_step_appends:
  "planning_step ag rt pp tsk is_first_step i is_mistral s = (None, s') \<Longrightarrow>
   \<exists>e. logs s' = logs s @ [e] \<and> error e = None \<and> final_answer e = None"
  by (auto simp: planning_step_def Let_def empty_entry_def
      split: if_splits prod.splits sum.splits)

lemma planning_steps_one:
  "planning_steps (Some p) i (i + 1) = (if i mod p = 0 then 1 else 0)"
  by (simp add: planning_steps_def)

lemma planning_steps_empty: "planning_steps interval i i = 0"
  by (simp add: planning_steps_def split: option.splits)

lemma planning_steps_first:
  "i < j \<Longrightarrow>
   planning_steps interval i (i + 1) + planning_steps interval (i + 1) j
     = planning_steps interval i j"
  by (cases interval) (simp_all add: planning_steps_def upto_rec1[of i "j - 1"])

lemma planning_due_length:
  assumes "planning_due ag rt pp tsk is_mistral i s = (None, s1)"
  shows "length (logs s1) = length (logs s) + planning_steps (planning_interval ag) i (i + 1)"
proof (cases "planning_interval ag")
  case None
  with assms show ?thesis by (simp add: planning_due_def planning_steps_def)
next
  case (Some p)
  show ?thesis
  proof (cases "i mod p = 0")
    case True
    with assms Some have "planning_step ag rt pp tsk (i = 0) i is_mistral s = (None, s1)"
      by (auto simp: planning_due_def split: if_splits)
    from planning_step_appends[OF this] True Some show ?thesis
      by (auto simp: planning_steps_one)
  next
    case False
    with assms Some show ?thesis
      by (auto simp: planning_due_def planning_steps_one split: if_splits)
  qed
qed

lemma set_last_error_length: "set_last_error e lgs = Inr lgs' \<Longrightarrow> length lgs' = length lgs"
  by (auto simp: set_last_error_def split: if_splits)

lemma direct_iteration_length:
  assumes c: "step_appends_entry step"
    and d: "direct_iteration ag rt pp step tsk is_mistral vars s = (Inr vars', s')"
  shows "length (logs s') = length (logs s) + 1
           + planning_steps (planning_interval ag) (iteration vars) (iteration vars + 1)"
proof -
  obtain pe s1 where pd: "planning_due ag rt pp tsk is_mistral (iteration vars) s = (pe, s1)"
    by (cases "planning_due ag rt pp tsk is_mistral (iteration vars) s")
  with d have pn: "pe = None" by (cases pe) (auto simp: direct_iteration_def)
  obtain out s2 where st: "step s1 = (out, s2)" by (cases "step s1")
  from d pd pn st have nr: "\<And>exn. out \<noteq> Raises exn"
    by (auto simp: direct_iteration_def)
  from c have "case fst (step s1) of Raises exn \<Rightarrow> True
      | _ \<Rightarrow> (\<exists>entry. logs (snd (step s1)) = logs s1 @ [entry])"
    unfolding step_appends_entry_def by blast
  with st nr have "\<exists>entry. logs s2 = logs s1 @ [entry]"
    by (cases out) auto
  then obtain entry where e: "logs s2 = logs s1 @ [entry]" by blast
  have "length (logs s') = length (logs s2)"
    using d pd pn st
    by (auto simp: direct_iteration_def dest: set_last_error_length
        split: outcome.splits sum.splits prod.splits)
  with e planning_due_length[OF pd[unfolded pn]] show ?thesis by simp
qed

lemma direct_iterations_length:
  assumes c: "step_appends_entry step"
  shows "direct_iterations k ag rt pp step tsk is_mistral vars0 s = (Inr vars, s') \<Longrightarrow>
     iteration vars0 \<le> iteration vars
     \<and> length (logs s') = length (logs s) + nat (iteration vars - iteration vars0)
         + planning_steps (planning_interval ag) (iteration vars0) (iteration vars)"
proof (induction k arbitrary: vars0 s)
  case 0
  then show ?case by (simp add: planning_steps_empty)
next
  case (Suc k)
  show ?case
  proof (cases "answer vars0 = VNone \<and> iteration vars0 < max_iterations ag")
    case False
    with Suc.prems show ?thesis by (auto simp: planning_steps_empty)
  next
    case True
    obtain r s1 where di: "direct_iteration ag rt pp step tsk is_mistral vars0 s = (r, s1)"
      by (cases "direct_iteration ag rt pp step tsk is_mistral vars0 s")
    with True Suc.prems obtain vars1 where r: "r = Inr vars1"
      and rest: "direct_iterations k ag rt pp step tsk is_mistral vars1 s1 = (Inr vars, s')"
      by (cases r) auto
    have i1: "iteration vars1 = iteration vars0 + 1"
      using di r by (auto dest: direct_iteration_counts)
    have l1: "length (logs s1) = length (logs s) + 1
        + planning_steps (planning_interval ag) (iteration vars0) (iteration vars0 + 1)"
      using direct_iteration_length[OF c di[unfolded r]] .
    from Suc.IH[OF rest] have ih: "iteration vars1 \<le> iteration vars"
      "length (logs s') = length (logs s1) + nat (iteration vars - iteration vars1)
         + planning_steps (planning_interval ag) (iteration vars1) (iteration vars)"
      by simp_all
    have lt: "iteration vars0 < iteration vars" using ih(1) i1 by simp
    have "nat (iteration vars - iteration vars0) = 1 + nat (iteration vars - iteration vars1)"
      using lt i1 by simp
    with ih l1 i1 planning_steps_first[OF lt, of "planning_interval ag"] lt
    show ?thesis by simp
  qed
qed

lemma direct_loop_iterations:
  "direct_loop ag rt pp step tsk is_mistral vars s
     = direct_iterations (nat (max_iterations ag - iteration vars)) ag rt pp step tsk
         is_mistral vars s"
proof (induction "nat (max_iterations ag - iteration vars)" arbitrary: vars s)
  case 0
  then show ?case by (simp add: direct_loop.simps)
next
  case (Suc n)
  then have lt: "iteration vars < max_iterations ag" by linarith
  show ?case
  proof (cases "answer vars = VNone")
    case False
    then show ?thesis using Suc.hyps(2)[symmetric] by (simp add: direct_loop.simps)
  next
    case True
    obtain r s1 where di: "direct_iteration ag rt pp step tsk is_mistral vars s = (r, s1)"
      by (cases "direct_iteration ag rt pp step tsk is_mistral vars s")
    show ?thesis
    proof (cases r)
      case (Inl exn)
      with di True lt show ?thesis
        using Suc.hyps(2)[symmetric] by (simp add: direct_loop.simps)
    next
      case (Inr vars1)
      have i1: "iteration vars1 = iteration vars + 1"
        using di Inr by (auto dest: direct_iteration_counts)
      have n: "n = nat (max_iterations ag - iteration vars1)"
        using Suc.hyps(2) i1 by linarith
      from Suc.hyps(1)[OF n, of s1] di Inr True lt show ?thesis
        using Suc.hyps(2)[symmetric] n by (simp add: direct_loop.simps)
    qed
  qed
qed


lemma planning_due_entries:
  assumes "planning_due ag rt pp tsk is_mistral i s = (None, s1)"
  shows "\<exists>new. logs s1 = logs s @ new \<and> (\<forall>e\<in>set new. error e = None \<and> final_answer e = None)"
proof (cases "planning_interval ag")
  case None
  with assms show ?thesis by (simp add: planning_due_def)
next
  case (Some p)
  show ?thesis
  proof (cases "i mod p = 0")
    case True
    with assms Some have "planning_step ag rt pp tsk (i = 0) i is_mistral s = (None, s1)"
      by (auto simp: planning_due_def split: if_splits)
    from planning_step_appends[OF this] obtain e where
      "logs s1 = logs s @ [e]" "error e = None" "final_answer e = None" by blast
    then have "logs s1 = logs s @ [e] \<and> (\<forall>x\<in>set [e]. error x = None \<and> final_answer x = None)"
      by simp
    then show ?thesis by blast
  next
    case False
    with assms Some show ?thesis
      by (auto simp: planning_due_def split: if_splits)
  qed
qed

lemma set_last_error_snoc:
  "set_last_error e (lgs @ [entry]) = Inr (lgs @ [entry\<lparr>error := Some e\<rparr>])"
  by (simp add: set_last_error_def)

lemma step_sets_one_appends: "step_sets_one step \<Longrightarrow> step_appends_entry step"
  unfolding step_sets_one_def step_appends_entry_def
  by (auto split: outcome.splits)

lemma direct_iteration_entries:
  assumes c: "step_sets_one step"
    and d: "direct_iteration ag rt pp step tsk is_mistral vars s = (Inr vars', s')"
  shows "\<exists>new. logs s' = logs s @ new
           \<and> (\<forall>e\<in>set new. error e = None \<or> final_answer e = None)"
proof -
  obtain pe s1 where pd: "planning_due ag rt pp tsk is_mistral (iteration vars) s = (pe, s1)"
    by (cases "planning_due ag rt pp tsk is_mistral (iteration vars) s")
  with d have pn: "pe = None" by (cases pe) (auto simp: direct_iteration_def)
  from planning_due_entries[OF pd[unfolded pn]] obtain pl where
    pl: "logs s1 = logs s @ pl" "\<forall>e\<in>set pl. error e = None \<and> final_answer e = None"
    by blast
  obtain out s2 where st: "step s1 = (out, s2)" by (cases "step s1")
  from c have k: "case fst (step s1) of
        Raises exn \<Rightarrow> True
      | RaisesAgent e \<Rightarrow>
          (\<exists>entry. logs (snd (step s1)) = logs s1 @ [entry] \<and> final_answer entry = None)
      | Returns v \<Rightarrow>
          (\<exists>entry. logs (snd (step s1)) = logs s1 @ [entry] \<and> error entry = None)"
    unfolding step_sets_one_def by blast
  show ?thesis
  proof (cases out)
    case (Raises exn)
    with d pd pn st show ?thesis by (simp add: direct_iteration_def)
  next
    case (RaisesAgent e)
    with k st obtain entry where
      e: "logs s2 = logs s1 @ [entry]" "final_answer entry = None" by auto
    from d pd pn st RaisesAgent e have "logs s' = logs s1 @ [entry\<lparr>error := Some e\<rparr>]"
      by (auto simp: direct_iteration_def set_last_error_snoc)
    with pl e have "logs s' = logs s @ (pl @ [entry\<lparr>error := Some e\<rparr>])
        \<and> (\<forall>x\<in>set (pl @ [entry\<lparr>error := Some e\<rparr>]). error x = None \<or> final_answer x = None)"
      by auto
    then show ?thesis by blast
  next
    case (Returns v)
    with k st obtain entry where
      e: "logs s2 = logs s1 @ [entry]" "error entry = None" by auto
    from d pd pn st Returns have "s' = s2"
      by (auto simp: direct_iteration_def split: sum.splits prod.splits)
    with pl e have "logs s' = logs s @ (pl @ [entry])
        \<and> (\<forall>x\<in>set (pl @ [entry]). error x = None \<or> final_answer x = None)"
      by auto
    then show ?thesis by blast
  qed
qed

lemma direct_iterations_entries:
  assumes c: "step_sets_one step"
  shows "direct_iterations k ag rt pp step tsk is_mistral vars0 s = (Inr vars, s') \<Longrightarrow>
     \<exists>new. logs s' = logs s @ new
       \<and> (\<forall>e\<in>set new. error e = None \<or> final_answer e = None)"
proof (induction k arbitrary: vars0 s)
  case 0
  then show ?case by simp
next
  case (Suc k)
  show ?case
  proof (cases "answer vars0 = VNone \<and> iteration vars0 < max_iterations ag")
    case False
    with Suc.prems show ?thesis by auto
  next
    case True
    obtain r s1 where di: "direct_iteration ag rt pp step tsk is_mistral vars0 s = (r, s1)"
      by (cases "direct_iteration ag rt pp step tsk is_mistral vars0 s")
    with True Suc.prems obtain vars1 where r: "r = Inr vars1"
      and rest: "direct_iterations k ag rt pp step tsk is_mistral vars1 s1 = (Inr vars, s')"
      by (cases r) auto
    from direct_iteration_entries[OF c di[unfolded r]] obtain n1 where
      n1: "logs s1 = logs s @ n1" "\<forall>e\<in>set n1. error e = None \<or> final_answer e = None"
      by blast
    from Suc.IH[OF rest] obtain n2 where
      n2: "logs s' = logs s1 @ n2" "\<forall>e\<in>set n2. error e = None \<or> final_answer e = None"
      by blast
    from n1 n2 have "logs s' = logs s @ (n1 @ n2)
        \<and> (\<forall>e\<in>set (n1 @ n2). error e = None \<or> final_answer e = None)"
      by auto
    then show ?thesis by blast
  qed
qed

lemma json_step_body_entry:
  assumes "json_step_body ag rt memory st w = (out, entry, st', w')"
  shows "error entry = None \<and> (final_answer entry = None \<or> (\<exists>v. out = Returns v))"
  using assms
  by (auto simp: json_step_body_def Let_def empty_entry_def
      split: prod.splits sum.splits if_splits outcome.splits pyval.splits)

lemma json_step_sets_one: "step_sets_one (json_step ag rt)"
  unfolding step_sets_one_def
proof
  fix s :: "'a agent_state"
  show "case fst (json_step ag rt s) of
          Raises exn \<Rightarrow> True
        | RaisesAgent e \<Rightarrow>
            (\<exists>entry. logs (snd (json_step ag rt s)) = logs s @ [entry]
               \<and> final_answer entry = None)
        | Returns v \<Rightarrow>
            (\<exists>entry. logs (snd (json_step ag rt s)) = logs s @ [entry] \<and> error entry = None)"
  proof (cases "write_inner_memory_from_logs rt False False (logs s)")
    case (Inl exn)
    then show ?thesis by (simp add: json_step_def)
  next
    case (Inr memory)
    obtain out entry st' w' where
      b: "json_step_body ag rt memory (state s) (world s) = (out, entry, st', w')"
      by (cases "json_step_body ag rt memory (state s) (world s)") auto
    from json_step_body_entry[OF b] Inr b show ?thesis
      by (cases out) (auto simp: json_step_def)
  qed
qed

lemma planning_start:
  "start_run planning_agent example_rt ''What is 2+2?'' True [] fresh_state
     = Inr planning_start_state"
  by code_simp

lemma planning_iteration:
  "fst (direct_iterations 1 planning_agent example_rt example_prompts
     (json_step planning_agent example_rt) ''What is 2+2?'' False initial_vars
     planning_start_state)
   = Inr (initial_vars\<lparr>iteration := 1\<rparr>)"
  "map entry_keys (logs (snd (direct_iterations 1 planning_agent example_rt example_prompts
     (json_step planning_agent example_rt) ''What is 2+2?'' False initial_vars
     planning_start_state)))
   = [[''system_prompt'', ''task''], [''plan'', ''facts''],
      [''agent_memory'', ''llm_output'', ''error'']]"
  by code_simp+


lemma unparsable_start:
  "start_run (unparsable_agent 2) example_rt ''What is 2+2?'' True [] fresh_state
     = Inr planning_start_state"
  by code_simp

lemma unparsable_iterations:
  "fst (direct_iterations 2 (unparsable_agent 2) example_rt example_prompts
     (json_step (unparsable_agent 2) example_rt) ''What is 2+2?'' False initial_vars
     planning_start_state)
   = Inr (initial_vars\<lparr>iteration := 2\<rparr>)"
  by code_simp

lemma stream_iteration_length:
  assumes c: "step_appends_entry step"
    and d: "stream_iteration step vars s = (Inr vars', ys, s')"
  shows "length (logs s') = length (logs s) + 1 \<and> length ys = 1"
proof -
  obtain out s2 where st: "step s = (out, s2)" by (cases "step s")
  from d st have nr: "\<And>exn. out \<noteq> Raises exn"
    by (auto simp: stream_iteration_def split: if_splits)
  from c have "case fst (step s) of Raises exn \<Rightarrow> True
      | _ \<Rightarrow> (\<exists>entry. logs (snd (step s)) = logs s @ [entry])"
    unfolding step_appends_entry_def by blast
  with st nr have "\<exists>entry. logs s2 = logs s @ [entry]"
    by (cases out) auto
  then obtain entry where e: "logs s2 = logs s @ [entry]" by blast
  have "length (logs s') = length (logs s2) \<and> length ys = 1"
    using d st
    by (auto simp: stream_iteration_def dest: set_last_error_length
        split: outcome.splits sum.splits prod.splits if_splits)
  with e show ?thesis by simp
qed

lemma stream_loop_length:
  "step_appends_entry step \<Longrightarrow>
   stream_loop ag step vars yielded s = (Inr vars', yielded', s') \<Longrightarrow>
     iteration vars \<le> iteration vars'
     \<and> length (logs s') = length (logs s) + nat (iteration vars' - iteration vars)
     \<and> length yielded' = length yielded + nat (iteration vars' - iteration vars)"
proof (induction ag step vars yielded s rule: stream_loop.induct)
  case (1 ag step vars yielded s)
  note c = "1.prems"(1)
  show ?case
  proof (cases "answer vars = VNone \<and> iteration vars < max_iterations ag")
    case False
    with "1.prems"(2) show ?thesis by (simp add: stream_loop.simps)
  next
    case True
    obtain r ys s1 where it: "stream_iteration step vars s = (r, ys, s1)"
      by (cases "stream_iteration step vars s") auto
    with True "1.prems"(2) obtain vars1 where r: "r = Inr vars1"
      and rest: "stream_loop ag step vars1 (yielded @ ys) s1 = (Inr vars', yielded', s')"
      by (cases r) (auto simp: stream_loop.simps[of ag step vars yielded s])
    from stream_iteration_counts[OF it[unfolded r]]
    have i1: "iteration vars1 = iteration vars + 1" .
    from stream_iteration_length[OF c it[unfolded r]]
    have l1: "length (logs s1) = length (logs s) + 1" "length ys = 1" by simp_all
    from "1.IH"[OF True it[unfolded r, symmetric] refl refl c rest]
    have ih: "iteration vars1 \<le> iteration vars'"
      "length (logs s') = length (logs s1) + nat (iteration vars' - iteration vars1)"
      "length yielded' = length (yielded @ ys) + nat (iteration vars' - iteration vars1)"
      by simp_all
    have "nat (iteration vars' - iteration vars) = 1 + nat (iteration vars' - iteration vars1)"
      using ih(1) i1 by simp
    with ih l1 i1 show ?thesis by simp
  qed
qed

lemma planning_stream:
  "fst (stream_loop planning_agent (json_step planning_agent example_rt) initial_vars []
     planning_start_state)
   = Inr (initial_vars\<lparr>iteration := 1\<rparr>)"
  "map entry_keys (logs (snd (snd (stream_loop planning_agent
     (json_step planning_agent example_rt) initial_vars [] planning_start_state))))
   = [[''system_prompt'', ''task''], [''agent_memory'', ''llm_output'', ''error'']]"
  by code_simp+

text \<open>
  Claim C2, amended. Take a run started with reset, any step method that appends one
  entry to the log whenever it does not end the run, and any number of passes of the loop
  of \<open>direct_run\<close> that end without an exception leaving the loop; let \<open>i\<close> be the
  count of completed iterations. Without a planning interval the log has length
  \<open>i + 1\<close>. With a planning interval \<open>p\<close> the log has one more entry, the one that
  \<open>planning_step\<close> appends with the plan and the facts, for each iteration among
  \<open>0, ..., i - 1\<close> that \<open>p\<close> divides. When the step sets at most one of \<open>error\<close> and
  \<open>final_answer\<close>, no entry appended during the loop holds both; the step of
  \<open>ReactJsonAgent\<close> is such a step. The loop of \<open>direct_run\<close> is the sequence of these
  passes, as many as the budget. The loop of \<open>stream_run\<close> never plans: when it ends
  after \<open>i\<close> iterations the log has length \<open>i + 1\<close>, with or without a planning
  interval, and \<open>i\<close> entries have been yielded.
\<close>

theorem log_length_invariant:
  assumes a: "step_appends_entry step"
    and st: "start_run ag rt tsk True kwargs s0 = Inr s"
    and d: "direct_iterations k ag rt pp step tsk is_mistral initial_vars s = (Inr vars, s')"
  shows "0 \<le> iteration vars
    \<and> (case planning_interval ag of
          None \<Rightarrow> length (logs s') = nat (iteration vars) + 1
        | Some p \<Rightarrow>
            length (logs s')
              = nat (iteration vars) + 1
                + length (filter (\<lambda>j. j mod p = 0) [0..iteration vars - 1]))
    \<and> (step_sets_one step \<longrightarrow>
          (\<exists>new. logs s' = logs s @ new
             \<and> (\<forall>e\<in>set new. error e = None \<or> final_answer e = None)))
    \<and> step_appends_entry (json_step ag rt)
    \<and> step_sets_one (json_step ag rt)
    \<and> direct_loop ag rt pp step tsk is_mistral initial_vars s
        = direct_iterations (nat (max_iterations ag)) ag rt pp step tsk is_mistral
            initial_vars s
    \<and> (stream_loop ag step initial_vars [] s = (Inr stream_vars, yielded, stream_state)
         \<longrightarrow> length (logs stream_state) = nat (iteration stream_vars) + 1
             \<and> length yielded = nat (iteration stream_vars))"
proof -
  from start_run_reset[OF st] have l: "length (logs s) = 1" by auto
  have i0: "iteration initial_vars = 0" by (simp add: initial_vars_def)
  from direct_iterations_length[OF a d] l i0
  have n: "0 \<le> iteration vars"
    and len: "length (logs s')
      = nat (iteration vars) + 1 + planning_steps (planning_interval ag) 0 (iteration vars)"
    by simp_all
  from len have c: "case planning_interval ag of
        None \<Rightarrow> length (logs s') = nat (iteration vars) + 1
      | Some p \<Rightarrow>
          length (logs s')
            = nat (iteration vars) + 1
              + length (filter (\<lambda>j. j mod p = 0) [0..iteration vars - 1])"
    by (simp add: planning_steps_def split: option.splits)
  have e: "step_sets_one step \<longrightarrow>
      (\<exists>new. logs s' = logs s @ new
         \<and> (\<forall>e\<in>set new. error e = None \<or> final_answer e = None))"
    using direct_iterations_entries[OF _ d] by blast
  have j: "step_sets_one (json_step ag rt)" by (rule json_step_sets_one)
  have lp: "direct_loop ag rt pp step tsk is_mistral initial_vars s
        = direct_iterations (nat (max_iterations ag)) ag rt pp step tsk is_mistral
            initial_vars s"
    using direct_loop_iterations[of ag rt pp step tsk is_mistral initial_vars s] i0 by simp
  have sl: "stream_loop ag step initial_vars [] s = (Inr stream_vars, yielded, stream_state)
         \<longrightarrow> length (logs stream_state) = nat (iteration stream_vars) + 1
             \<and> length yielded = nat (iteration stream_vars)"
    using stream_loop_length[OF a, of ag initial_vars "[]" s stream_vars yielded stream_state]
      l i0 by simp
  from n c e j step_sets_one_appends[OF j] lp sl show ?thesis by blast
qed

theorem log_length_invariant_witness:
  "step_appends_entry (json_step planning_agent example_rt)
   \<and> step_sets_one (json_step planning_agent example_rt)
   \<and> start_run planning_agent example_rt ''What is 2+2?'' True [] fresh_state
       = Inr planning_start_state
   \<and> planning_interval planning_agent = Some 1
   \<and> fst (direct_iterations 1 planning_agent example_rt example_prompts
        (json_step planning_agent example_rt) ''What is 2+2?'' False initial_vars
        planning_start_state)
       = Inr (initial_vars\<lparr>iteration := 1\<rparr>)
   \<and> length (logs (snd (direct_iterations 1 planning_agent example_rt example_prompts
        (json_step planning_agent example_rt) ''What is 2+2?'' False initial_vars
        planning_start_state)))
       = 1 + 1 + 1
   \<and> fst (stream_loop planning_agent (json_step planning_agent example_rt) initial_vars []
        planning_start_state)
       = Inr (initial_vars\<lparr>iteration := 1\<rparr>)
   \<and> length (logs (snd (snd (stream_loop planning_agent
        (json_step planning_agent example_rt) initial_vars [] planning_start_state))))
       = 1 + 1
   \<and> planning_interval (unparsable_agent 2) = None
   \<and> fst (direct_iterations 2 (unparsable_agent 2) example_rt example_prompts
        (json_step (unparsable_agent 2) example_rt) ''What is 2+2?'' False initial_vars
        planning_start_state)
       = Inr (initial_vars\<lparr>iteration := 2\<rparr>)
   \<and> length (logs (snd (direct_iterations 2 (unparsable_agent 2) example_rt example_prompts
        (json_step (unparsable_agent 2) example_rt) ''What is 2+2?'' False initial_vars
        planning_start_state)))
       = 2 + 1"
proof -
  let ?p = "direct_iterations 1 planning_agent example_rt example_prompts
        (json_step planning_agent example_rt) ''What is 2+2?'' False initial_vars
        planning_start_state"
  let ?q = "stream_loop planning_agent (json_step planning_agent example_rt) initial_vars []
        planning_start_state"
  let ?u = "direct_iterations 2 (unparsable_agent 2) example_rt example_prompts
        (json_step (unparsable_agent 2) example_rt) ''What is 2+2?'' False initial_vars
        planning_start_state"
  have one: "step_sets_one (json_step planning_agent example_rt)"
    by (rule json_step_sets_one)
  have app: "step_appends_entry (json_step planning_agent example_rt)"
    using one by (rule step_sets_one_appends)
  have app2: "step_appends_entry (json_step (unparsable_agent 2) example_rt)"
    using json_step_sets_one by (rule step_sets_one_appends)
  have ip: "planning_interval planning_agent = Some 1"
    by (simp add: planning_agent_def example_agent_def)
  have iu: "planning_interval (unparsable_agent 2) = None"
    by (simp add: unparsable_agent_def example_agent_def)
  have dp: "?p = (Inr (initial_vars\<lparr>iteration := 1\<rparr>), snd ?p)"
    using planning_iteration(1) by (metis prod.collapse)
  have dq: "?q = (Inr (initial_vars\<lparr>iteration := 1\<rparr>), fst (snd ?q), snd (snd ?q))"
    using planning_stream(1) by (metis prod.collapse)
  have du: "?u = (Inr (initial_vars\<lparr>iteration := 2\<rparr>), snd ?u)"
    using unparsable_iterations by (metis prod.collapse)
  have u1: "[0..(0::int)] = [0]" by (simp add: upto_rec1)
  note t = log_length_invariant[OF app planning_start dp,
      of "initial_vars\<lparr>iteration := 1\<rparr>" "fst (snd ?q)" "snd (snd ?q)"]
  from t ip u1 have lp: "length (logs (snd ?p)) = 1 + 1 + 1" by simp
  from t dq have lq: "length (logs (snd (snd ?q))) = 1 + 1" by simp
  from log_length_invariant[OF app2 unparsable_start du] iu
  have lu: "length (logs (snd ?u)) = 2 + 1" by simp
  from app one planning_start ip planning_iteration(1) lp planning_stream(1) lq iu
    unparsable_iterations lu
  show ?thesis by blast
qed

text \<open>
  Claim C2 as stated fails when a planning interval is set. With an interval of 1 and a
  reply of the engine that names no action, the first iteration runs \<open>planning_step\<close>,
  which appends the entry of the plan and the facts, and then the step, whose entry gets
  the error: after one completed iteration the log has three entries, not two.
\<close>

theorem planning_log_length_counterexample:
  "start_run planning_agent example_rt ''What is 2+2?'' True [] fresh_state
     = Inr planning_start_state
   \<and> planning_interval planning_agent = Some 1
   \<and> fst (direct_iterations 1 planning_agent example_rt example_prompts
        (json_step planning_agent example_rt) ''What is 2+2?'' False initial_vars
        planning_start_state)
       = Inr (initial_vars\<lparr>iteration := 1\<rparr>)
   \<and> map entry_keys
        (logs (snd (direct_iterations 1 planning_agent example_rt example_prompts
           (json_step planning_agent example_rt) ''What is 2+2?'' False initial_vars
           planning_start_state)))
       = [[''system_prompt'', ''task''], [''plan'', ''facts''],
          [''agent_memory'', ''llm_output'', ''error'']]
   \<and> length
        (logs (snd (direct_iterations 1 planning_agent example_rt example_prompts
           (json_step planning_agent example_rt) ''What is 2+2?'' False initial_vars
           planning_start_state)))
       = 3"
proof -
  let ?p = "direct_iterations 1 planning_agent example_rt example_prompts
        (json_step planning_agent example_rt) ''What is 2+2?'' False initial_vars
        planning_start_state"
  have ip: "planning_interval planning_agent = Some 1"
    by (simp add: planning_agent_def example_agent_def)
  have "length (map entry_keys (logs (snd ?p))) = 3"
    unfolding planning_iteration(2) by simp
  then have "length (logs (snd ?p)) = 3" by simp
  with planning_start ip planning_iteration show ?thesis by blast
qed

end
